theory Spec2Isabelle
  imports Complex_Main "HOL-Library.Sublist" "HOL-Library.Multiset"
    "HOL-Library.Char_ord" "HOL-Library.List_Lexorder" "HOL-Library.Word"
begin

section \<open>Data model\<close>

text \<open>
  A parsed \<open>Date\<close> is a calendar date. The selectors \<open>year\<close>, \<open>month\<close> and \<open>day\<close> are
  the accessors \<open>.dt.year\<close>, \<open>.dt.month\<close> and \<open>.dt.day\<close> of \<open>main.py\<close>, lines 16 to 18.
\<close>

record timestamp =
  year :: int
  month :: int
  day :: int

text \<open>
  The value of a numeric cell. \<open>pd.read_csv\<close> gives a medication column whose cells are
  all whole numbers the type \<open>int64\<close>, and a column with a decimal or an empty cell the
  type \<open>float64\<close>; a cell of an \<open>int64\<close> column is a 64-bit word, read as a signed
  number. The arithmetic of \<open>float64\<close> values is that of the real numbers: the rounding
  of 64-bit floats is not modelled. \<open>to_float\<close> is the conversion of a cell to
  \<open>float64\<close>.
\<close>

datatype number = Int64 "64 word" | Float64 real

primrec to_float :: "number \<Rightarrow> real" where
  "to_float (Int64 w) = real_of_int (sint w)"
| "to_float (Float64 x) = x"

text \<open>
  One line of \<open>pharma.csv\<close> as \<open>pd.read_csv\<close> hands it over: the text of its \<open>Date\<close>
  column and one numeric cell per medication column. A cell that is empty in the file is
  null (\<open>None\<close>). The cells of one column are of one type: all \<open>Int64\<close> and none
  null, or each \<open>Float64\<close> or null.
\<close>

record csv_row =
  csv_Date :: string
  csv_cell :: "string \<Rightarrow> number option"

text \<open>
  One row of the data frame that \<open>load_data\<close> returns: the parsed date, the four derived
  columns and the medication cells. \<open>None\<close> is the null of pandas (\<open>NaT\<close> for a date,
  \<open>NaN\<close> for a number or a name).
\<close>

record row =
  Date :: "timestamp option"
  Day :: "int option"
  Month :: "int option"
  Year :: "int option"
  Weekday_Name :: "string option"
  cell :: "string \<Rightarrow> number option"

datatype error = ValueError | StreamlitAPIException

section \<open>Loading (lines 11 to 20)\<close>

definition weekday_order :: "string list" where
  "weekday_order =
     [''Monday'', ''Tuesday'', ''Wednesday'', ''Thursday'', ''Friday'', ''Saturday'', ''Sunday'']"

definition is_leap :: "int \<Rightarrow> bool" where
  "is_leap y = (y mod 4 = 0 \<and> (y mod 100 \<noteq> 0 \<or> y mod 400 = 0))"

definition days_in_month :: "int \<Rightarrow> int list" where
  "days_in_month y =
     [31, if is_leap y then 29 else 28, 31, 30, 31, 30, 31, 31, 30, 31, 30, 31]"

text \<open>
  The proleptic Gregorian ordinal of a date (day 1 is 0001-01-01, a Monday), from which the
  day of the week is read: 0 is Monday, 6 is Sunday.
\<close>

definition toordinal :: "timestamp \<Rightarrow> int" where
  "toordinal t =
     (let y = year t - 1
      in y * 365 + y div 4 - y div 100 + y div 400
         + sum_list (take (nat (month t - 1)) (days_in_month (year t))) + day t)"

definition dayofweek :: "timestamp \<Rightarrow> nat" where
  "dayofweek t = nat ((toordinal t + 6) mod 7)"

definition day_name :: "timestamp \<Rightarrow> string" where
  "day_name t = weekday_order ! dayofweek t"

text \<open>
  \<open>load_data\<close>, row by row. Its first argument is \<open>pd.to_datetime\<close> with
  \<open>errors='coerce'\<close>: a text that does not parse gives \<open>None\<close> instead of an exception.
  Every derived column of a row with a null date is null.
\<close>

definition load_row :: "(string \<Rightarrow> timestamp option) \<Rightarrow> csv_row \<Rightarrow> row" where
  "load_row to_datetime r =
     (let d = to_datetime (csv_Date r)
      in \<lparr>Date = d,
          Day = map_option day d,
          Month = map_option month d,
          Year = map_option year d,
          Weekday_Name = map_option day_name d,
          cell = csv_cell r\<rparr>)"

definition load_data :: "(string \<Rightarrow> timestamp option) \<Rightarrow> csv_row list \<Rightarrow> row list" where
  "load_data to_datetime csv = map (load_row to_datetime) csv"

section \<open>Day-range cap (lines 53 to 61)\<close>

text \<open>
  The entries of \<open>selected_months\<close> are values of the \<open>Month\<close> column, hence of type
  \<open>int option\<close>: a null month is in none of the two tests and leaves the cap at 31.
\<close>

definition max_day :: "int option list \<Rightarrow> int" where
  "max_day selected_months =
     (if length selected_months = 1 then
        (let month = hd selected_months
         in if month \<in> set [Some 4, Some 6, Some 9, Some 11] then 30
            else if month = Some 2 then 28
            else 31)
      else 31)"

section \<open>Filter (lines 71 to 77)\<close>

text \<open>
  The comparisons of a column with a number, element by element. A comparison with a null
  value is false.
\<close>

definition ge_scalar :: "int option list \<Rightarrow> int \<Rightarrow> bool list" where
  "ge_scalar col k = map (\<lambda>v. case v of None \<Rightarrow> False | Some x \<Rightarrow> x \<ge> k) col"

definition le_scalar :: "int option list \<Rightarrow> int \<Rightarrow> bool list" where
  "le_scalar col k = map (\<lambda>v. case v of None \<Rightarrow> False | Some x \<Rightarrow> x \<le> k) col"

text \<open>\<open>Series.isin\<close>: membership in the given values; a null matches a null.\<close>

definition isin :: "int option list \<Rightarrow> int option list \<Rightarrow> bool list" where
  "isin col vals = map (\<lambda>v. v \<in> set vals) col"

text \<open>The operator \<open>&\<close> of two boolean columns.\<close>

definition mask_and :: "bool list \<Rightarrow> bool list \<Rightarrow> bool list" where
  "mask_and a b = map (\<lambda>(p, q). p \<and> q) (zip a b)"

text \<open>\<open>df[mask]\<close>: the rows at which the mask is true, in the order of the frame.\<close>

definition boolean_index :: "'a list \<Rightarrow> bool list \<Rightarrow> 'a list" where
  "boolean_index df msk = map fst (filter snd (zip df msk))"

definition filtered_df ::
  "row list \<Rightarrow> int \<times> int \<Rightarrow> int option list \<Rightarrow> int \<times> int \<Rightarrow> row list" where
  "filtered_df df year_range selected_months selected_day_range =
     boolean_index df
       (mask_and
         (mask_and
           (mask_and
             (mask_and
               (ge_scalar (map Year df) (fst year_range))
               (le_scalar (map Year df) (snd year_range)))
             (isin (map Month df) selected_months))
           (ge_scalar (map Day df) (fst selected_day_range)))
         (le_scalar (map Day df) (snd selected_day_range)))"

text \<open>
  The filter as the specification words it: the rows whose year lies in the inclusive year
  range, whose month is one of the selected months and whose day lies in the inclusive day
  range. A null value lies in no range.
\<close>

definition in_range :: "int option \<Rightarrow> int \<times> int \<Rightarrow> bool" where
  "in_range v rg = (case v of None \<Rightarrow> False | Some x \<Rightarrow> fst rg \<le> x \<and> x \<le> snd rg)"

definition spec_keeps :: "int \<times> int \<Rightarrow> int option list \<Rightarrow> int \<times> int \<Rightarrow> row \<Rightarrow> bool" where
  "spec_keeps year_range months day_range r =
     (in_range (Year r) year_range \<and> Month r \<in> set months \<and> in_range (Day r) day_range)"

definition spec_filter ::
  "row list \<Rightarrow> int \<times> int \<Rightarrow> int option list \<Rightarrow> int \<times> int \<Rightarrow> row list" where
  "spec_filter df year_range months day_range =
     filter (spec_keeps year_range months day_range) df"

section \<open>Month selection (lines 45 to 50)\<close>

text \<open>\<open>Series.unique\<close>: the distinct values in the order of their first occurrence.\<close>

definition unique :: "'a list \<Rightarrow> 'a list" where
  "unique xs = fold (\<lambda>x acc. if x \<in> set acc then acc else acc @ [x]) xs []"

text \<open>
  Line 45. Python's \<open>sorted\<close> is the first argument. Whatever the comparisons answer,
  its result is a rearrangement of its argument, and on month numbers without a null it is
  the ascending list. A null among them compares false with every number, and where
  \<open>sorted\<close> then leaves the null and the numbers around it depends on its merge
  strategy; nothing is assumed about that.
\<close>

definition available_months ::
  "(int option list \<Rightarrow> int option list) \<Rightarrow> row list \<Rightarrow> int option list" where
  "available_months py_sorted df = py_sorted (unique (map Month df))"

text \<open>
  \<open>st.multiselect\<close> before the user touches it: its value is the default, and a default
  that is not one of the options is refused with an exception.
\<close>

definition multiselect :: "'a list \<Rightarrow> 'a list \<Rightarrow> error + 'a list" where
  "multiselect options dflt =
     (if list_all (\<lambda>d. d \<in> set options) dflt then Inr dflt else Inl StreamlitAPIException)"

definition selected_months_default ::
  "(int option list \<Rightarrow> int option list) \<Rightarrow> row list \<Rightarrow> error + int option list" where
  "selected_months_default py_sorted df = multiselect (available_months py_sorted df) [Some 1]"

section \<open>Column reductions\<close>

text \<open>
  \<open>cells\<close> is a column as the frame holds it; \<open>column\<close> is the column converted to
  \<open>float64\<close>, which is what the mean of a group, \<open>describe\<close> and \<open>corr\<close> compute on.
\<close>

definition cells :: "string \<Rightarrow> row list \<Rightarrow> number option list" where
  "cells c df = map (\<lambda>r. cell r c) df"

definition column :: "string \<Rightarrow> row list \<Rightarrow> real option list" where
  "column c df = map (\<lambda>r. map_option to_float (cell r c)) df"

primrec dropna :: "'a option list \<Rightarrow> 'a list" where
  "dropna [] = []"
| "dropna (x # xs) = (case x of None \<Rightarrow> dropna xs | Some v \<Rightarrow> v # dropna xs)"

text \<open>
  The reductions of pandas skip nulls. \<open>count\<close> is the number of values that are left,
  \<open>mean\<close> their total over their number (null when none is left).
\<close>

definition count_nonnull :: "real option list \<Rightarrow> nat" where
  "count_nonnull s = length (dropna s)"

text \<open>
  \<open>int64_values\<close> gives the words of a column of type \<open>int64\<close>, and \<open>None\<close> for a
  column of type \<open>float64\<close>. \<open>sum\<close> keeps the type of the column: an \<open>int64\<close>
  column is added up in 64-bit words, where the addition wraps around; a \<open>float64\<close>
  column is added up over the values that are not null (0 when none is left).
\<close>

fun int64_values :: "number option list \<Rightarrow> 64 word list option" where
  "int64_values [] = Some []"
| "int64_values (Some (Int64 w) # xs) = map_option ((#) w) (int64_values xs)"
| "int64_values (Some (Float64 x) # xs) = None"
| "int64_values (None # xs) = None"

definition sum_skipna :: "number option list \<Rightarrow> real" where
  "sum_skipna s =
     (case int64_values s of
        Some ws \<Rightarrow> real_of_int (sint (sum_list ws))
      | None \<Rightarrow> sum_list (dropna (map (map_option to_float) s)))"

definition mean :: "real option list \<Rightarrow> real option" where
  "mean s =
     (let ys = dropna s
      in if ys = [] then None else Some (sum_list ys / real (length ys)))"

text \<open>The sum of the squared deviations from the arithmetic mean.\<close>

definition ssqdm :: "real list \<Rightarrow> real" where
  "ssqdm ys = (let m = sum_list ys / real (length ys) in sum_list (map (\<lambda>y. (y - m)\<^sup>2) ys))"

text \<open>\<open>std\<close> with one degree of freedom taken off: null unless two values are left.\<close>

definition std :: "real option list \<Rightarrow> real option" where
  "std s =
     (let ys = dropna s; n = length ys
      in if n < 2 then None else Some (sqrt (ssqdm ys / real (n - 1))))"

definition min_skipna :: "real option list \<Rightarrow> real option" where
  "min_skipna s = (case dropna s of [] \<Rightarrow> None | y # ys \<Rightarrow> Some (fold min ys y))"

definition max_skipna :: "real option list \<Rightarrow> real option" where
  "max_skipna s = (case dropna s of [] \<Rightarrow> None | y # ys \<Rightarrow> Some (fold max ys y))"

text \<open>
  \<open>quantile\<close> with linear interpolation: on the ascending values \<open>ys\<close>, position
  \<open>h = q * (n - 1)\<close> lies between two neighbours, and the result lies between them in
  the same proportion.
\<close>

definition interpolate :: "real list \<Rightarrow> real \<Rightarrow> real" where
  "interpolate ys h =
     (let lo = nat \<lfloor>h\<rfloor>;
          hi = min (lo + 1) (length ys - 1)
      in ys ! lo + (h - real lo) * (ys ! hi - ys ! lo))"

definition quantile :: "real option list \<Rightarrow> real \<Rightarrow> real option" where
  "quantile s q =
     (let ys = sort (dropna s); n = length ys
      in if n = 0 then None else Some (interpolate ys (q * real (n - 1))))"

section \<open>Weekday aggregation (lines 116 to 120)\<close>

text \<open>
  \<open>groupby('Weekday Name')[selected_medications].mean().reset_index()\<close>: one row per
  weekday name that occurs (rows with a null name belong to no group), the names in
  ascending lexicographic order, each with the mean of every selected column over the rows
  of that name.
\<close>

definition groupby_mean :: "row list \<Rightarrow> string list \<Rightarrow> (string \<times> real option list) list" where
  "groupby_mean df cols =
     map (\<lambda>k. (k, map (\<lambda>c. mean (column c (filter (\<lambda>r. Weekday_Name r = Some k) df))) cols))
       (sort (remdups (dropna (map Weekday_Name df))))"

text \<open>
  \<open>pd.Categorical\<close> with the given categories: a value that is no category becomes null;
  the code of a category is its position, and nulls are ordered last.
\<close>

definition categorical :: "string list \<Rightarrow> string \<Rightarrow> string option" where
  "categorical cats v = (if v \<in> set cats then Some v else None)"

definition category_code :: "string list \<Rightarrow> string option \<Rightarrow> nat" where
  "category_code cats v =
     (case v of None \<Rightarrow> length cats | Some s \<Rightarrow> length (takeWhile (\<lambda>c. c \<noteq> s) cats))"

definition weekday_df :: "row list \<Rightarrow> string list \<Rightarrow> (string option \<times> real option list) list" where
  "weekday_df fdf selected_medications =
     sort_key (\<lambda>g. category_code weekday_order (fst g))
       (map (\<lambda>g. (categorical weekday_order (fst g), snd g))
         (groupby_mean fdf selected_medications))"

section \<open>Statistics summary (lines 137 to 140)\<close>

record stats_row =
  Count :: nat
  Mean :: "real option"
  Std_Dev :: "real option"
  Minimum :: "real option"
  Pct25 :: "real option"
  Median :: "real option"
  Pct75 :: "real option"
  Maximum :: "real option"
  Total :: real

text \<open>
  The eight values of \<open>describe\<close> on the column as \<open>float64\<close>, and the \<open>sum\<close> of the
  column in its own type.
\<close>

definition describe_sum :: "number option list \<Rightarrow> stats_row" where
  "describe_sum s =
     (let f = map (map_option to_float) s
      in \<lparr>Count = count_nonnull f,
          Mean = mean f,
          Std_Dev = std f,
          Minimum = min_skipna f,
          Pct25 = quantile f (1 / 4),
          Median = quantile f (1 / 2),
          Pct75 = quantile f (3 / 4),
          Maximum = max_skipna f,
          Total = sum_skipna s\<rparr>)"

definition stats_df :: "row list \<Rightarrow> string list \<Rightarrow> (string \<times> stats_row) list" where
  "stats_df fdf selected_medications =
     map (\<lambda>c. (c, describe_sum (cells c fdf))) selected_medications"

section \<open>Correlation matrix (line 145)\<close>

text \<open>The pairs of values of two columns at the rows where neither is null.\<close>

definition complete_pairs :: "real option list \<Rightarrow> real option list \<Rightarrow> (real \<times> real) list" where
  "complete_pairs a b =
     dropna (map (\<lambda>(x, y). case x of None \<Rightarrow> None
                                | Some u \<Rightarrow> (case y of None \<Rightarrow> None | Some v \<Rightarrow> Some (u, v)))
               (zip a b))"

definition codev :: "(real \<times> real) list \<Rightarrow> real" where
  "codev ps =
     (let n = real (length ps);
          mx = sum_list (map fst ps) / n;
          my = sum_list (map snd ps) / n
      in sum_list (map (\<lambda>(x, y). (x - mx) * (y - my)) ps))"

text \<open>
  Pearson's coefficient of a list of pairs, as \<open>DataFrame.corr\<close> computes a cell: null
  without a pair (\<open>min_periods\<close> is 1) and null when the divisor is zero, otherwise the
  quotient, clipped to the interval from -1 to 1.
\<close>

definition pearson :: "(real \<times> real) list \<Rightarrow> real option" where
  "pearson ps =
     (if length ps < 1 then None
      else (let divisor = sqrt (ssqdm (map fst ps) * ssqdm (map snd ps))
            in if divisor \<noteq> 0
               then (let v = codev ps / divisor
                     in Some (if v > 1 then 1 else if v < -1 then -1 else v))
               else None))"

definition corr :: "row list \<Rightarrow> string list \<Rightarrow> real option list list" where
  "corr fdf selected_medications =
     map (\<lambda>a. map (\<lambda>b. pearson (complete_pairs (column a fdf) (column b fdf)))
                selected_medications)
       selected_medications"

section \<open>Main display (lines 80 to 160)\<close>

text \<open>The order of dates: by year, then by month, then by day.\<close>

definition ts_le :: "timestamp \<Rightarrow> timestamp \<Rightarrow> bool" where
  "ts_le a b =
     (year a < year b \<or>
      (year a = year b \<and> (month a < month b \<or> (month a = month b \<and> day a \<le> day b))))"

definition ts_min :: "timestamp \<Rightarrow> timestamp \<Rightarrow> timestamp" where
  "ts_min a b = (if ts_le a b then a else b)"

definition ts_max :: "timestamp \<Rightarrow> timestamp \<Rightarrow> timestamp" where
  "ts_max a b = (if ts_le a b then b else a)"

text \<open>\<open>Series.min\<close> and \<open>Series.max\<close> of the \<open>Date\<close> column: \<open>NaT\<close> when no date is left.\<close>

definition date_min :: "timestamp option list \<Rightarrow> timestamp option" where
  "date_min s = (case dropna s of [] \<Rightarrow> None | t # ts \<Rightarrow> Some (fold ts_min ts t))"

definition date_max :: "timestamp option list \<Rightarrow> timestamp option" where
  "date_max s = (case dropna s of [] \<Rightarrow> None | t # ts \<Rightarrow> Some (fold ts_max ts t))"

text \<open>The last \<open>w\<close> decimal digits of a number, the leading places filled with zeros.\<close>

definition digits :: "nat \<Rightarrow> nat \<Rightarrow> string" where
  "digits w n = map (\<lambda>i. ''0123456789'' ! (n div 10 ^ i mod 10)) (rev [0..<w])"

text \<open>
  \<open>strftime('%Y-%m-%d')\<close>. On \<open>NaT\<close> it raises \<open>ValueError\<close>. The years of a pandas
  timestamp have four digits.
\<close>

definition strftime :: "timestamp option \<Rightarrow> error + string" where
  "strftime t =
     (case t of
        None \<Rightarrow> Inl ValueError
      | Some d \<Rightarrow>
          Inr (digits 4 (nat (year d)) @ ''-'' @ digits 2 (nat (month d)) @ ''-''
               @ digits 2 (nat (day d))))"

text \<open>
  What the script puts on the page. The captions are kept without their emoji, and the
  bullets of the footer are written as bars.
\<close>

datatype element =
    Header string
  | Warning string
  | Date_Range string string
  | Total_Records nat
  | Dataframe "row list"
  | Line_Chart "row list" "string list"
  | Bar_Chart "(string option \<times> real option list) list" "string list"
  | Stats_Table "(string \<times> stats_row) list"
  | Heatmap "real option list list"
  | Markdown string

definition no_data :: element where
  "no_data = Warning ''No data available for the selected filters.''"

definition tab1 :: "row list \<Rightarrow> string list \<Rightarrow> element list" where
  "tab1 fdf selected_medications =
     (if fdf \<noteq> [] then [Line_Chart fdf selected_medications] else [no_data])"

definition tab2 :: "row list \<Rightarrow> string list \<Rightarrow> element list" where
  "tab2 fdf selected_medications =
     (if fdf \<noteq> [] then [Bar_Chart (weekday_df fdf selected_medications) selected_medications]
      else [no_data])"

definition tab3 :: "row list \<Rightarrow> string list \<Rightarrow> element list" where
  "tab3 fdf selected_medications =
     (if fdf \<noteq> []
      then [Stats_Table (stats_df fdf selected_medications),
            Heatmap (corr fdf selected_medications)]
      else [no_data])"

text \<open>
  Lines 82 to 156. The summary formats the least and the greatest date of the filtered
  rows before any tab is reached; an exception there ends the run.
\<close>

definition main_display :: "row list \<Rightarrow> string list \<Rightarrow> error + element list" where
  "main_display fdf selected_medications =
     (if selected_medications = []
      then Inr [Warning ''Please select at least one medication to analyze.'']
      else (case strftime (date_min (map Date fdf)) of
              Inl e \<Rightarrow> Inl e
            | Inr lo \<Rightarrow>
                (case strftime (date_max (map Date fdf)) of
                   Inl e \<Rightarrow> Inl e
                 | Inr hi \<Rightarrow>
                     Inr ([Date_Range lo hi, Total_Records (length fdf), Dataframe fdf]
                          @ tab1 fdf selected_medications
                          @ tab2 fdf selected_medications
                          @ tab3 fdf selected_medications))))"

text \<open>
  Lines 71 to 160: the filter, the header, the main display and the footer, for the
  medications and the filter parameters the side bar returned.
\<close>

definition dashboard ::
  "row list \<Rightarrow> string list \<Rightarrow> int \<times> int \<Rightarrow> int option list \<Rightarrow> int \<times> int \<Rightarrow> error + element list"
  where
  "dashboard df selected_medications year_range selected_months selected_day_range =
     (case main_display (filtered_df df year_range selected_months selected_day_range)
             selected_medications of
        Inl e \<Rightarrow> Inl e
      | Inr els \<Rightarrow>
          Inr (Header ''Medication Usage Analysis'' # els
               @ [Markdown ''---'',
                  Markdown ''Developed by [Your Name] | [GitHub Repo](#) | v1.0'']))"

section \<open>Sample data\<close>

text \<open>
  A small file for the concrete checks below: four lines of January and February 2023 with
  two medication columns and one line whose date does not parse. The column \<open>DrugA\<close>
  holds whole numbers and is of type \<open>int64\<close>; the column \<open>DrugB\<close> has an empty cell
  and is of type \<open>float64\<close>. \<open>sample_to_datetime\<close> parses exactly the dates of this
  file.
\<close>

definition sample_to_datetime :: "string \<Rightarrow> timestamp option" where
  "sample_to_datetime =
     map_of
       [(''2023-01-15'', \<lparr>year = 2023, month = 1, day = 15\<rparr>),
        (''2023-01-16'', \<lparr>year = 2023, month = 1, day = 16\<rparr>),
        (''2023-02-10'', \<lparr>year = 2023, month = 2, day = 10\<rparr>),
        (''2023-01-22'', \<lparr>year = 2023, month = 1, day = 22\<rparr>)]"

definition sample_csv :: "csv_row list" where
  "sample_csv =
     [\<lparr>csv_Date = ''2023-01-15'',
       csv_cell = map_of [(''DrugA'', Int64 1), (''DrugB'', Float64 2)]\<rparr>,
      \<lparr>csv_Date = ''2023-01-16'',
       csv_cell = map_of [(''DrugA'', Int64 3)]\<rparr>,
      \<lparr>csv_Date = ''not a date'',
       csv_cell = map_of [(''DrugA'', Int64 5), (''DrugB'', Float64 1)]\<rparr>,
      \<lparr>csv_Date = ''2023-02-10'',
       csv_cell = map_of [(''DrugA'', Int64 7), (''DrugB'', Float64 4)]\<rparr>,
      \<lparr>csv_Date = ''2023-01-22'',
       csv_cell = map_of [(''DrugA'', Int64 4), (''DrugB'', Float64 6)]\<rparr>]"

definition sample_df :: "row list" where
  "sample_df = load_data sample_to_datetime sample_csv"

text \<open>
  A sorting function with the two properties of \<open>sorted\<close> named at
  \<open>available_months\<close>, for the concrete checks: the numbers ascending, then the nulls.
  On a list without a null it is \<open>sorted\<close>.
\<close>

definition nulls_last_sorted :: "int option list \<Rightarrow> int option list" where
  "nulls_last_sorted xs = map Some (sort (dropna xs)) @ filter (\<lambda>x. x = None) xs"

text \<open>
  Two files of two years: one with February lines only, and one whose \<open>int64\<close> column
  \<open>DrugA\<close> holds twice the number \<open>2 ^ 62\<close>. \<open>two_year_to_datetime\<close> parses
  their dates.
\<close>

definition two_year_to_datetime :: "string \<Rightarrow> timestamp option" where
  "two_year_to_datetime =
     map_of
       [(''2022-02-10'', \<lparr>year = 2022, month = 2, day = 10\<rparr>),
        (''2023-02-10'', \<lparr>year = 2023, month = 2, day = 10\<rparr>),
        (''2022-01-15'', \<lparr>year = 2022, month = 1, day = 15\<rparr>),
        (''2023-01-16'', \<lparr>year = 2023, month = 1, day = 16\<rparr>)]"

definition february_csv :: "csv_row list" where
  "february_csv =
     [\<lparr>csv_Date = ''2022-02-10'', csv_cell = map_of [(''DrugA'', Int64 7)]\<rparr>,
      \<lparr>csv_Date = ''2023-02-10'', csv_cell = map_of [(''DrugA'', Int64 9)]\<rparr>]"

definition large_csv :: "csv_row list" where
  "large_csv =
     [\<lparr>csv_Date = ''2022-01-15'',
       csv_cell = map_of [(''DrugA'', Int64 4611686018427387904)]\<rparr>,
      \<lparr>csv_Date = ''2023-01-16'',
       csv_cell = map_of [(''DrugA'', Int64 4611686018427387904)]\<rparr>]"

section \<open>Properties of the filter\<close>

lemma boolean_index_map:
  "boolean_index df (map P df) = filter P df"
  unfolding boolean_index_def
  by (induction df) simp_all

lemma mask_and_map:
  "mask_and (map P xs) (map Q xs) = map (\<lambda>x. P x \<and> Q x) xs"
  unfolding mask_and_def
  by (induction xs) simp_all

lemma ge_scalar_map:
  "ge_scalar (map f df) k = map (\<lambda>r. case f r of None \<Rightarrow> False | Some x \<Rightarrow> x \<ge> k) df"
  by (simp add: ge_scalar_def)

lemma le_scalar_map:
  "le_scalar (map f df) k = map (\<lambda>r. case f r of None \<Rightarrow> False | Some x \<Rightarrow> x \<le> k) df"
  by (simp add: le_scalar_def)

lemma isin_map:
  "isin (map f df) vals = map (\<lambda>r. f r \<in> set vals) df"
  by (simp add: isin_def)

lemma filtered_df_filter:
  "filtered_df df yr ms dr = filter (spec_keeps yr ms dr) df"
proof -
  have "filtered_df df yr ms dr =
      filter (\<lambda>r. ((((case Year r of None \<Rightarrow> False | Some x \<Rightarrow> x \<ge> fst yr)
                  \<and> (case Year r of None \<Rightarrow> False | Some x \<Rightarrow> x \<le> snd yr))
                  \<and> Month r \<in> set ms)
                  \<and> (case Day r of None \<Rightarrow> False | Some x \<Rightarrow> x \<ge> fst dr))
                  \<and> (case Day r of None \<Rightarrow> False | Some x \<Rightarrow> x \<le> snd dr)) df"
    unfolding filtered_df_def ge_scalar_map le_scalar_map isin_map mask_and_map
    by (rule boolean_index_map)
  also have "\<dots> = filter (spec_keeps yr ms dr) df"
    by (rule filter_cong) (auto simp: spec_keeps_def in_range_def split: option.splits)
  finally show ?thesis .
qed

lemma filtered_df_spec:
  "filtered_df df yr ms dr = spec_filter df yr ms dr"
  by (simp add: filtered_df_filter spec_filter_def)

lemma load_row_fields:
  "Day (load_row td r) = map_option day (Date (load_row td r))"
  "Month (load_row td r) = map_option month (Date (load_row td r))"
  "Year (load_row td r) = map_option year (Date (load_row td r))"
  "Weekday_Name (load_row td r) = map_option day_name (Date (load_row td r))"
  "Date (load_row td r) = td (csv_Date r)"
  "cell (load_row td r) = csv_cell r"
  by (simp_all add: load_row_def Let_def)

lemma filtered_loaded_has_date:
  assumes "x \<in> set (filtered_df (load_data td csv) yr ms dr)"
  shows "Date x \<noteq> None"
proof -
  from assms obtain r where x: "x = load_row td r" and k: "spec_keeps yr ms dr x"
    by (auto simp: filtered_df_filter load_data_def)
  from k have "Year x \<noteq> None"
    by (auto simp: spec_keeps_def in_range_def split: option.splits)
  with x show ?thesis
    by (auto simp: load_row_fields)
qed

section \<open>The main display on a non-empty result\<close>

lemma dropna_all_some:
  "\<forall>x \<in> set xs. x \<noteq> None \<Longrightarrow> length (dropna xs) = length xs"
  by (induction xs) (auto split: option.splits)

lemma strftime_some: "\<exists>s. strftime (Some t) = Inr s"
  by (simp add: strftime_def)

lemma date_min_some:
  assumes "fdf \<noteq> []" "\<forall>x \<in> set fdf. Date x \<noteq> None"
  shows "\<exists>t. date_min (map Date fdf) = Some t" "\<exists>t. date_max (map Date fdf) = Some t"
proof -
  have "length (dropna (map Date fdf)) = length (map Date fdf)"
    using assms(2) by (intro dropna_all_some) auto
  with assms(1) have "dropna (map Date fdf) \<noteq> []" by auto
  then show "\<exists>t. date_min (map Date fdf) = Some t" "\<exists>t. date_max (map Date fdf) = Some t"
    by (auto simp: date_min_def date_max_def split: list.splits)
qed

lemma main_display_nonempty:
  assumes "fdf \<noteq> []" "\<forall>x \<in> set fdf. Date x \<noteq> None" "meds \<noteq> []"
  shows "\<exists>lo hi. main_display fdf meds =
           Inr [Date_Range lo hi, Total_Records (length fdf), Dataframe fdf,
                Line_Chart fdf meds, Bar_Chart (weekday_df fdf meds) meds,
                Stats_Table (stats_df fdf meds), Heatmap (corr fdf meds)]"
proof -
  from date_min_some[OF assms(1,2)] obtain a b where
    ab: "date_min (map Date fdf) = Some a" "date_max (map Date fdf) = Some b" by blast
  from strftime_some[of a] strftime_some[of b] obtain lo hi where
    "strftime (Some a) = Inr lo" "strftime (Some b) = Inr hi" by blast
  with ab assms(1,3) show ?thesis
    by (simp add: main_display_def tab1_def tab2_def tab3_def)
qed

lemma dashboard_nonempty:
  assumes "filtered_df (load_data td csv) yr ms dr \<noteq> []" "meds \<noteq> []"
  shows "\<exists>lo hi. dashboard (load_data td csv) meds yr ms dr =
           Inr [Header ''Medication Usage Analysis'',
                Date_Range lo hi,
                Total_Records (length (filtered_df (load_data td csv) yr ms dr)),
                Dataframe (filtered_df (load_data td csv) yr ms dr),
                Line_Chart (filtered_df (load_data td csv) yr ms dr) meds,
                Bar_Chart (weekday_df (filtered_df (load_data td csv) yr ms dr) meds) meds,
                Stats_Table (stats_df (filtered_df (load_data td csv) yr ms dr) meds),
                Heatmap (corr (filtered_df (load_data td csv) yr ms dr) meds),
                Markdown ''---'',
                Markdown ''Developed by [Your Name] | [GitHub Repo](#) | v1.0'']"
proof -
  have "\<forall>x \<in> set (filtered_df (load_data td csv) yr ms dr). Date x \<noteq> None"
    using filtered_loaded_has_date by blast
  from main_display_nonempty[OF assms(1) this assms(2)] show ?thesis
    by (auto simp: dashboard_def)
qed

lemma sample_df_rows:
  "sample_df =
     [\<lparr>Date = Some \<lparr>year = 2023, month = 1, day = 15\<rparr>, Day = Some 15, Month = Some 1,
       Year = Some 2023, Weekday_Name = Some ''Sunday'',
       cell = map_of [(''DrugA'', Int64 1), (''DrugB'', Float64 2)]\<rparr>,
      \<lparr>Date = Some \<lparr>year = 2023, month = 1, day = 16\<rparr>, Day = Some 16, Month = Some 1,
       Year = Some 2023, Weekday_Name = Some ''Monday'',
       cell = map_of [(''DrugA'', Int64 3)]\<rparr>,
      \<lparr>Date = None, Day = None, Month = None, Year = None, Weekday_Name = None,
       cell = map_of [(''DrugA'', Int64 5), (''DrugB'', Float64 1)]\<rparr>,
      \<lparr>Date = Some \<lparr>year = 2023, month = 2, day = 10\<rparr>, Day = Some 10, Month = Some 2,
       Year = Some 2023, Weekday_Name = Some ''Friday'',
       cell = map_of [(''DrugA'', Int64 7), (''DrugB'', Float64 4)]\<rparr>,
      \<lparr>Date = Some \<lparr>year = 2023, month = 1, day = 22\<rparr>, Day = Some 22, Month = Some 1,
       Year = Some 2023, Weekday_Name = Some ''Sunday'',
       cell = map_of [(''DrugA'', Int64 4), (''DrugB'', Float64 6)]\<rparr>]"
  by (simp add: sample_df_def sample_csv_def sample_to_datetime_def load_data_def load_row_def
      day_name_def dayofweek_def toordinal_def days_in_month_def is_leap_def weekday_order_def)

text \<open>
  C1. For every year range, month selection and day range, the filter returns exactly the
  rows of the data set whose year lies in the inclusive year range, whose month is among
  the selected months and whose day lies in the inclusive day range; so every row of the
  result meets the three conditions, and every row that meets them is in the result. The
  filter has no medication argument, and for a loaded data set with a non-empty result the
  dashboard shows that same result, whichever medications are selected.
\<close>

theorem filtered_df_exact:
  "filtered_df df yr ms dr = spec_filter df yr ms dr
   \<and> (\<forall>r \<in> set (filtered_df df yr ms dr).
         in_range (Year r) yr \<and> Month r \<in> set ms \<and> in_range (Day r) dr)
   \<and> (\<forall>r \<in> set df. spec_keeps yr ms dr r \<longrightarrow> r \<in> set (filtered_df df yr ms dr))
   \<and> (meds \<noteq> [] \<and> filtered_df (load_data td csv) yr ms dr \<noteq> [] \<longrightarrow>
        (\<exists>els. dashboard (load_data td csv) meds yr ms dr = Inr els
           \<and> Dataframe (spec_filter (load_data td csv) yr ms dr) \<in> set els))"
proof -
  have a: "filtered_df df yr ms dr = spec_filter df yr ms dr"
    by (rule filtered_df_spec)
  have b: "\<forall>r \<in> set (filtered_df df yr ms dr).
         in_range (Year r) yr \<and> Month r \<in> set ms \<and> in_range (Day r) dr"
    by (auto simp: filtered_df_filter spec_keeps_def)
  have c: "\<forall>r \<in> set df. spec_keeps yr ms dr r \<longrightarrow> r \<in> set (filtered_df df yr ms dr)"
    by (auto simp: filtered_df_filter)
  have d: "meds \<noteq> [] \<and> filtered_df (load_data td csv) yr ms dr \<noteq> [] \<longrightarrow>
        (\<exists>els. dashboard (load_data td csv) meds yr ms dr = Inr els
           \<and> Dataframe (spec_filter (load_data td csv) yr ms dr) \<in> set els)"
  proof
    assume h: "meds \<noteq> [] \<and> filtered_df (load_data td csv) yr ms dr \<noteq> []"
    then obtain lo hi where "dashboard (load_data td csv) meds yr ms dr =
           Inr [Header ''Medication Usage Analysis'',
                Date_Range lo hi,
                Total_Records (length (filtered_df (load_data td csv) yr ms dr)),
                Dataframe (filtered_df (load_data td csv) yr ms dr),
                Line_Chart (filtered_df (load_data td csv) yr ms dr) meds,
                Bar_Chart (weekday_df (filtered_df (load_data td csv) yr ms dr) meds) meds,
                Stats_Table (stats_df (filtered_df (load_data td csv) yr ms dr) meds),
                Heatmap (corr (filtered_df (load_data td csv) yr ms dr) meds),
                Markdown ''---'',
                Markdown ''Developed by [Your Name] | [GitHub Repo](#) | v1.0'']"
      using dashboard_nonempty[of td csv yr ms dr meds] by blast
    then show "\<exists>els. dashboard (load_data td csv) meds yr ms dr = Inr els
           \<and> Dataframe (spec_filter (load_data td csv) yr ms dr) \<in> set els"
      by (simp add: filtered_df_spec)
  qed
  from a b c d show ?thesis by blast
qed

lemma sample_filtered:
  "spec_filter sample_df (2023, 2023) [Some 1, None] (1, 20) = take 2 sample_df"
  by (simp add: sample_df_rows spec_filter_def spec_keeps_def in_range_def)

theorem filtered_df_exact_witness:
  "filtered_df sample_df (2023, 2023) [Some 1, None] (1, 20) = take 2 sample_df
   \<and> (\<exists>els. dashboard sample_df [''DrugB''] (2023, 2023) [Some 1, None] (1, 20) = Inr els
         \<and> Dataframe (take 2 sample_df) \<in> set els)"
  using filtered_df_exact[of sample_df "(2023, 2023)" "[Some 1, None]" "(1, 20)" "[''DrugB'']"
      sample_to_datetime sample_csv]
  by (simp add: sample_filtered sample_df_def[symmetric]) (simp add: sample_df_rows)

section \<open>Order and multiplicity of the filtered rows\<close>

text \<open>
  C10. The filtered subset is a sub-sequence of the loaded data set: its rows are rows of
  the data set, whole and unchanged, in the same relative order, and none occurs more often
  than in the data set.
\<close>

theorem filtered_df_subseq:
  "subseq (filtered_df df yr ms dr) df
   \<and> mset (filtered_df df yr ms dr) \<subseteq># mset df
   \<and> set (filtered_df df yr ms dr) \<subseteq> set df"
proof -
  have "subseq (filter (spec_keeps yr ms dr) df) df"
    by (rule subseq_filter_left)
  moreover have "mset (filter (spec_keeps yr ms dr) df) \<subseteq># mset df"
    by (simp add: mset_filter)
  ultimately show ?thesis
    by (simp add: filtered_df_filter)
qed

theorem filtered_df_subseq_witness:
  "filtered_df sample_df (2023, 2023) [Some 1] (16, 31) = [sample_df ! 1, sample_df ! 4]
   \<and> subseq [sample_df ! 1, sample_df ! 4] sample_df"
proof -
  have e: "filtered_df sample_df (2023, 2023) [Some 1] (16, 31) = [sample_df ! 1, sample_df ! 4]"
    by (simp add: filtered_df_filter sample_df_rows spec_keeps_def in_range_def)
  from filtered_df_subseq[of sample_df "(2023, 2023)" "[Some 1]" "(16, 31)"] e
  show ?thesis by simp
qed

section \<open>The day-range cap\<close>

text \<open>
  C3. With exactly one month selected the cap of the day range is 30 for the months 4, 6, 9
  and 11, and 28 for month 2; the year is no argument of the cap, so it is never 29. In
  every other case, also with no month or with two or more months selected, the cap is 31.
\<close>

theorem max_day_cases:
  "(m \<in> {4, 6, 9, 11} \<longrightarrow> max_day [Some m] = 30)
   \<and> max_day [Some 2] = 28
   \<and> (m \<notin> {2, 4, 6, 9, 11} \<longrightarrow> max_day [Some m] = 31)
   \<and> max_day [None] = 31
   \<and> (length ms \<noteq> 1 \<longrightarrow> max_day ms = 31)
   \<and> max_day ms \<in> {28, 30, 31}"
  by (auto simp: max_day_def Let_def)

theorem max_day_cases_witness:
  "max_day [Some 4] = 30 \<and> max_day [Some 2] = 28 \<and> max_day [Some 1] = 31
   \<and> max_day [Some 1, Some 2] = 31 \<and> max_day [] = 31"
  using max_day_cases[of 4 "[Some 1, Some 2]"] max_day_cases[of 1 "[]"] by simp

section \<open>Rows without a date\<close>

text \<open>
  C8. Loading never fails on a date: a line whose date text does not parse is loaded as a
  row with a null date, day, month, year and weekday name. Whatever the filter parameters
  are, also with a null among the selected months, such a row is not in the filtered
  subset, and every row of the filtered subset has a date.
\<close>

theorem unparseable_date_excluded:
  assumes "r \<in> set csv" and "to_datetime (csv_Date r) = None"
  shows "load_row to_datetime r \<in> set (load_data to_datetime csv)
    \<and> Date (load_row to_datetime r) = None
    \<and> Day (load_row to_datetime r) = None
    \<and> Month (load_row to_datetime r) = None
    \<and> Year (load_row to_datetime r) = None
    \<and> Weekday_Name (load_row to_datetime r) = None
    \<and> load_row to_datetime r \<notin> set (filtered_df (load_data to_datetime csv) yr ms dr)
    \<and> (\<forall>x \<in> set (filtered_df (load_data to_datetime csv) yr ms dr). Date x \<noteq> None)"
proof -
  have d: "Date (load_row to_datetime r) = None"
    using assms(2) by (simp add: load_row_fields)
  have "load_row to_datetime r \<notin> set (filtered_df (load_data to_datetime csv) yr ms dr)"
    using d filtered_loaded_has_date by blast
  moreover have "\<forall>x \<in> set (filtered_df (load_data to_datetime csv) yr ms dr). Date x \<noteq> None"
    using filtered_loaded_has_date by blast
  moreover have "load_row to_datetime r \<in> set (load_data to_datetime csv)"
    using assms(1) by (simp add: load_data_def)
  ultimately show ?thesis
    using d by (simp add: load_row_fields)
qed

theorem unparseable_date_excluded_witness:
  "sample_csv ! 2 \<in> set sample_csv
   \<and> sample_to_datetime (csv_Date (sample_csv ! 2)) = None
   \<and> sample_df ! 2 \<in> set sample_df
   \<and> Month (sample_df ! 2) = None
   \<and> sample_df ! 2 \<notin> set (filtered_df sample_df (2023, 2023) [Some 1, None] (1, 31))"
proof -
  have a: "sample_csv ! 2 \<in> set sample_csv"
    by (simp add: sample_csv_def)
  have b: "sample_to_datetime (csv_Date (sample_csv ! 2)) = None"
    by (simp add: sample_csv_def sample_to_datetime_def)
  have c: "load_row sample_to_datetime (sample_csv ! 2) = sample_df ! 2"
    by (simp add: sample_df_def load_data_def sample_csv_def)
  from unparseable_date_excluded[where r = "sample_csv ! 2" and csv = sample_csv
      and to_datetime = sample_to_datetime and yr = "(2023, 2023)" and ms = "[Some 1, None]"
      and dr = "(1, 31)"] a b
  show ?thesis
    by (simp add: c sample_df_def[symmetric])
qed

section \<open>The main display without a medication or without a row\<close>

text \<open>
  C9. With no medication selected the page holds the header, the warning that asks for a
  medication, and the footer, and nothing else: no summary, no chart, no table, no
  correlation matrix, and no exception, for every data set and all filter parameters.
\<close>

theorem dashboard_no_medication:
  "dashboard df [] yr ms dr =
     Inr [Header ''Medication Usage Analysis'',
          Warning ''Please select at least one medication to analyze.'',
          Markdown ''---'',
          Markdown ''Developed by [Your Name] | [GitHub Repo](#) | v1.0'']"
  by (simp add: dashboard_def main_display_def)

theorem dashboard_no_medication_witness:
  "dashboard sample_df [] (2023, 2023) [Some 1] (1, 31) =
     Inr [Header ''Medication Usage Analysis'',
          Warning ''Please select at least one medication to analyze.'',
          Markdown ''---'',
          Markdown ''Developed by [Your Name] | [GitHub Repo](#) | v1.0'']"
  by (rule dashboard_no_medication)

lemma main_display_empty_raises:
  "meds \<noteq> [] \<Longrightarrow> main_display [] meds = Inl ValueError"
  by (simp add: main_display_def date_min_def strftime_def)

text \<open>
  C2. The three tabs test for an empty subset, but the summary above them does not: with a
  medication selected and no row left by the filter, the least date of the empty subset is
  null, formatting it raises, and the run ends with \<open>ValueError\<close> before any tab is
  reached. Here the day range 30 to 31 leaves no row of January 2023.
\<close>

theorem dashboard_empty_subset_raises:
  "filtered_df sample_df (2023, 2023) [Some 1] (30, 31) = []
   \<and> dashboard sample_df [''DrugA''] (2023, 2023) [Some 1] (30, 31) = Inl ValueError"
proof -
  have e: "filtered_df sample_df (2023, 2023) [Some 1] (30, 31) = []"
    by (simp add: filtered_df_filter sample_df_rows spec_keeps_def in_range_def)
  then show ?thesis
    by (simp add: dashboard_def main_display_empty_raises)
qed

section \<open>The options of the month selection\<close>

lemma set_dropna: "set (dropna xs) = {v. Some v \<in> set xs}"
  by (induction xs) (auto split: option.splits)

lemma distinct_dropna: "distinct xs \<Longrightarrow> distinct (dropna xs)"
  by (induction xs) (auto simp: set_dropna split: option.splits)

lemma unique_fold_set:
  "set (fold (\<lambda>x acc. if x \<in> set acc then acc else acc @ [x]) xs acc) = set xs \<union> set acc"
  by (induction xs arbitrary: acc) auto

lemma unique_fold_distinct:
  "distinct acc \<Longrightarrow> distinct (fold (\<lambda>x acc. if x \<in> set acc then acc else acc @ [x]) xs acc)"
  by (induction xs arbitrary: acc) auto

lemma set_unique: "set (unique xs) = set xs"
  by (simp add: unique_def unique_fold_set)

lemma distinct_unique: "distinct (unique xs)"
  by (simp add: unique_def unique_fold_distinct)

lemma rearranged_set:
  assumes "\<And>xs. mset (py_sorted xs) = mset xs"
  shows "set (py_sorted xs) = set xs" and "distinct (py_sorted xs) = distinct xs"
proof -
  have m: "mset (py_sorted xs) = mset xs"
    by (rule assms)
  show "set (py_sorted xs) = set xs"
    using m by (rule mset_eq_setD)
  show "distinct (py_sorted xs) = distinct xs"
    using m by (rule mset_eq_imp_distinct_iff)
qed

lemma map_Some_the: "None \<notin> set zs \<Longrightarrow> map Some (map the zs) = zs"
  by (induction zs) auto

lemma sort_cong_mset:
  fixes xs ys :: "int list"
  assumes "mset xs = mset ys"
  shows "sort xs = sort ys"
  by (rule properties_for_sort) (simp_all add: assms)

lemma sorted_without_null:
  assumes perm: "\<And>xs. mset (py_sorted xs) = mset xs"
    and asc: "\<And>xs. None \<notin> set xs \<Longrightarrow> sorted (map the (py_sorted xs))"
    and n: "None \<notin> set xs"
  shows "py_sorted xs = map Some (sort (map the xs))"
proof -
  have n': "None \<notin> set (py_sorted xs)"
    using n by (simp add: rearranged_set(1)[of py_sorted, OF perm])
  have "mset (map the (py_sorted xs)) = mset (map the xs)"
    by (simp add: perm)
  moreover have "sorted (map the (py_sorted xs))"
    using n by (rule asc)
  ultimately have "sort (map the xs) = map the (py_sorted xs)"
    by (rule properties_for_sort)
  then show ?thesis
    using map_Some_the[OF n'] by simp
qed

lemma set_available_months:
  assumes "\<And>xs. mset (py_sorted xs) = mset xs"
  shows "set (available_months py_sorted df) = Month ` set df"
  by (simp add: available_months_def rearranged_set(1)[of py_sorted, OF assms] set_unique)

lemma distinct_available_months:
  assumes "\<And>xs. mset (py_sorted xs) = mset xs"
  shows "distinct (available_months py_sorted df)"
  by (simp add: available_months_def rearranged_set(2)[of py_sorted, OF assms] distinct_unique)

lemma available_months_ascending:
  assumes perm: "\<And>xs. mset (py_sorted xs) = mset xs"
    and asc: "\<And>xs. None \<notin> set xs \<Longrightarrow> sorted (map the (py_sorted xs))"
    and n: "None \<notin> Month ` set df"
  shows "available_months py_sorted df = map Some (sort (remdups (map the (map Month df))))"
proof -
  let ?u = "unique (map Month df)"
  have nu: "None \<notin> set ?u"
    using n by (simp add: set_unique)
  have inj: "inj_on the (set ?u)"
  proof (rule inj_onI)
    fix a b :: "int option"
    assume "a \<in> set ?u" and "b \<in> set ?u" and "the a = the b"
    with nu show "a = b"
      by (cases a; cases b) auto
  qed
  have "distinct (map the ?u)"
    using inj by (simp add: distinct_map distinct_unique)
  moreover have "set (map the ?u) = set (remdups (map the (map Month df)))"
    by (simp add: set_unique image_image)
  ultimately have "mset (map the ?u) = mset (remdups (map the (map Month df)))"
    by (metis distinct_remdups set_eq_iff_mset_eq_distinct)
  then have "sort (map the ?u) = sort (remdups (map the (map Month df)))"
    by (rule sort_cong_mset)
  moreover have "py_sorted ?u = map Some (sort (map the ?u))"
    using perm asc nu by (rule sorted_without_null)
  ultimately show ?thesis
    by (simp add: available_months_def)
qed

lemma nulls_last_sorted_mset: "mset (nulls_last_sorted xs) = mset xs"
  unfolding nulls_last_sorted_def
  by (induction xs) (auto split: option.splits)

lemma nulls_last_sorted_ascending:
  assumes "None \<notin> set xs"
  shows "sorted (map the (nulls_last_sorted xs))"
proof -
  have "\<forall>x \<in> set xs. \<not> x = None"
  proof (intro ballI notI)
    fix x
    assume "x \<in> set xs" and "x = None"
    with assms show False
      by simp
  qed
  then have "filter (\<lambda>x. x = None) xs = []"
    by (rule filter_False)
  then show ?thesis
    by (simp add: nulls_last_sorted_def comp_def)
qed

text \<open>
  C4, as the code has it. The choices of the month selection are the month values that
  occur in the loaded data set, each once; they are not the fixed months 1 to 12. When
  every date of the file parsed they stand in ascending order; when a date did not parse,
  a null is among the choices and the order is the one \<open>sorted\<close> leaves. When month 1
  occurs in the data set, the selection before any interaction is month 1 alone. The two
  hypotheses are the properties of \<open>sorted\<close> named at \<open>available_months\<close>.
\<close>

theorem available_months_options:
  assumes "\<And>xs. mset (py_sorted xs) = mset xs"
    and "\<And>xs. None \<notin> set xs \<Longrightarrow> sorted (map the (py_sorted xs))"
  shows "set (available_months py_sorted df) = Month ` set df
   \<and> distinct (available_months py_sorted df)
   \<and> (None \<notin> Month ` set df \<longrightarrow>
        available_months py_sorted df = map Some (sort (remdups (map the (map Month df)))))
   \<and> (Some 1 \<in> Month ` set df \<longrightarrow> selected_months_default py_sorted df = Inr [Some 1])"
proof -
  have a: "set (available_months py_sorted df) = Month ` set df"
    using assms(1) by (rule set_available_months)
  have b: "distinct (available_months py_sorted df)"
    using assms(1) by (rule distinct_available_months)
  have c: "None \<notin> Month ` set df \<longrightarrow>
        available_months py_sorted df = map Some (sort (remdups (map the (map Month df))))"
    using available_months_ascending[of py_sorted df, OF assms] by blast
  have d: "Some 1 \<in> Month ` set df \<longrightarrow> selected_months_default py_sorted df = Inr [Some 1]"
    by (simp add: selected_months_default_def multiselect_def a)
  from a b c d show ?thesis
    by blast
qed

lemma sample_months:
  "map Month sample_df = [Some 1, Some 1, None, Some 2, Some 1]"
  "map Month (load_data sample_to_datetime [sample_csv ! 3, sample_csv ! 0, sample_csv ! 4])
     = [Some 2, Some 1, Some 1]"
  by (simp_all add: sample_df_rows)
    (simp add: sample_csv_def sample_to_datetime_def load_data_def load_row_def)

theorem available_months_options_witness:
  "set (available_months nulls_last_sorted sample_df) = {Some 1, Some 2, None}
   \<and> selected_months_default nulls_last_sorted sample_df = Inr [Some 1]
   \<and> available_months nulls_last_sorted
        (load_data sample_to_datetime [sample_csv ! 3, sample_csv ! 0, sample_csv ! 4])
      = [Some 1, Some 2]"
proof -
  note t = available_months_options[of nulls_last_sorted, OF nulls_last_sorted_mset
      nulls_last_sorted_ascending]
  have a: "Month ` set sample_df = {Some 1, Some 2, None}"
    using sample_months(1) by (metis (no_types) image_set list.simps(15) insert_absorb2 insert_commute empty_set)
  let ?D = "load_data sample_to_datetime [sample_csv ! 3, sample_csv ! 0, sample_csv ! 4]"
  have b: "None \<notin> Month ` set ?D"
    unfolding image_set sample_months(2) by simp
  have "available_months nulls_last_sorted ?D
      = map Some (sort (remdups (map the (map Month ?D))))"
    using t[of ?D, THEN conjunct2, THEN conjunct2, THEN conjunct1] b by (rule mp)
  also have "\<dots> = [Some 1, Some 2]"
    unfolding sample_months(2) by simp
  finally have c: "available_months nulls_last_sorted ?D = [Some 1, Some 2]" .
  from t[of sample_df] c show ?thesis
    by (simp add: a)
qed

text \<open>
  A file with February lines of two years and no other: the one choice is month 2, and the
  default selection, month 1, is refused with an exception.
\<close>

theorem month_options_counterexample:
  "available_months nulls_last_sorted (load_data two_year_to_datetime february_csv) = [Some 2]
   \<and> available_months nulls_last_sorted (load_data two_year_to_datetime february_csv)
       \<noteq> map Some [1, 2, 3, 4, 5, 6, 7, 8, 9, 10, 11, 12]
   \<and> selected_months_default nulls_last_sorted (load_data two_year_to_datetime february_csv)
       = Inl StreamlitAPIException"
  by (simp add: february_csv_def two_year_to_datetime_def load_data_def load_row_def
      available_months_def unique_def nulls_last_sorted_def selected_months_default_def
      multiselect_def)


section \<open>The weekday aggregation\<close>

lemma weekday_codes:
  "map (\<lambda>d. category_code weekday_order (Some d)) weekday_order = [0, 1, 2, 3, 4, 5, 6]"
  by (simp add: category_code_def weekday_order_def)

lemma weekday_code_inj:
  "inj_on (\<lambda>d. category_code weekday_order (Some d)) (set weekday_order)"
proof -
  have "distinct (map (\<lambda>d. category_code weekday_order (Some d)) weekday_order)"
    by (simp add: weekday_codes)
  then show ?thesis
    by (simp add: distinct_map)
qed

lemma distinct_weekday_order: "distinct weekday_order"
  by (simp add: weekday_order_def)

lemma day_name_weekday: "day_name t \<in> set weekday_order"
proof -
  have "dayofweek t < 7"
    by (simp add: dayofweek_def)
  then have "weekday_order ! dayofweek t \<in> set weekday_order"
    by (intro nth_mem) (simp add: weekday_order_def)
  then show ?thesis
    by (simp add: day_name_def)
qed

lemma filtered_loaded_weekday:
  assumes "x \<in> set (filtered_df (load_data td csv) yr ms dr)"
  shows "\<exists>d \<in> set weekday_order. Weekday_Name x = Some d"
proof -
  from assms obtain r where x: "x = load_row td r"
    by (auto simp: filtered_df_filter load_data_def)
  from filtered_loaded_has_date[OF assms] obtain t where "Date x = Some t"
    by auto
  with x have "Weekday_Name x = Some (day_name t)"
    by (simp add: load_row_fields)
  then show ?thesis
    using day_name_weekday by blast
qed

lemma weekday_df_ordered:
  assumes names: "\<forall>x \<in> set fdf. \<exists>d \<in> set weekday_order. Weekday_Name x = Some d"
  shows "weekday_df fdf meds =
     map (\<lambda>d. (Some d,
                map (\<lambda>c. mean (column c (filter (\<lambda>r. Weekday_Name r = Some d) fdf))) meds))
       (filter (\<lambda>d. Some d \<in> Weekday_Name ` set fdf) weekday_order)"
proof -
  define keys where "keys = sort (remdups (dropna (map Weekday_Name fdf)))"
  define M where
    "M = (\<lambda>d. map (\<lambda>c. mean (column c (filter (\<lambda>r. Weekday_Name r = Some d) fdf))) meds)"
  define g where "g = (\<lambda>d. (Some d, M d))"
  define present where "present = filter (\<lambda>d. Some d \<in> Weekday_Name ` set fdf) weekday_order"
  have set_keys: "set keys = {d. Some d \<in> Weekday_Name ` set fdf}"
    by (simp add: keys_def set_dropna)
  have keys_sub: "set keys \<subseteq> set weekday_order"
    using names by (auto simp: set_keys)
  have dist_keys: "distinct keys"
    by (simp add: keys_def)
  have "groupby_mean fdf meds = map (\<lambda>k. (k, M k)) keys"
    by (simp add: groupby_mean_def keys_def M_def)
  then have "map (\<lambda>g. (categorical weekday_order (fst g), snd g)) (groupby_mean fdf meds)
      = map (\<lambda>k. (categorical weekday_order k, M k)) keys"
    by (simp add: comp_def)
  also have "\<dots> = map g keys"
    using keys_sub by (auto simp: categorical_def g_def)
  finally have w: "weekday_df fdf meds
      = sort_key (\<lambda>p. category_code weekday_order (fst p)) (map g keys)"
    by (simp add: weekday_df_def)
  have "set present = set keys"
    using keys_sub by (auto simp: present_def set_keys)
  moreover have "distinct present"
    by (simp add: present_def distinct_weekday_order)
  ultimately have "mset keys = mset present"
    using dist_keys by (simp add: set_eq_iff_mset_eq_distinct)
  then have m: "mset (map g keys) = mset (map g present)"
    by simp
  have "inj_on (\<lambda>d. category_code weekday_order (Some d)) (set keys)"
    using weekday_code_inj keys_sub by (rule inj_on_subset)
  then have i: "inj_on (\<lambda>p. category_code weekday_order (fst p)) (set (map g keys))"
    by (auto simp: inj_on_def g_def)
  have "sorted (map (\<lambda>d. category_code weekday_order (Some d)) weekday_order)"
    by (simp add: weekday_codes)
  then have "sorted (map (\<lambda>d. category_code weekday_order (Some d)) present)"
    unfolding present_def by (rule sorted_filter)
  then have s: "sorted (map (\<lambda>p. category_code weekday_order (fst p)) (map g present))"
    by (simp add: g_def comp_def)
  from m i s have "sort_key (\<lambda>p. category_code weekday_order (fst p)) (map g keys) = map g present"
    by (rule sort_key_inj_key_eq)
  with w show ?thesis
    by (simp add: g_def M_def present_def)
qed

lemma mset_dropna:
  "mset (dropna xs) = image_mset the (filter_mset (\<lambda>x. x \<noteq> None) (mset xs))"
  by (induction xs) (auto split: option.splits)

lemma mean_mset:
  assumes "mset a = mset b"
  shows "mean a = mean b"
proof -
  have m: "mset (dropna a) = mset (dropna b)"
    by (simp add: mset_dropna assms)
  then have "sum_list (dropna a) = sum_list (dropna b)"
    by (metis sum_mset_sum_list)
  moreover have "length (dropna a) = length (dropna b)"
    using m by (rule mset_eq_length)
  moreover have "(dropna a = []) = (dropna b = [])"
    using m by (metis mset_zero_iff)
  ultimately show ?thesis
    by (simp add: mean_def Let_def)
qed

lemma weekday_df_rearranged:
  assumes names: "\<forall>x \<in> set fdf. \<exists>d \<in> set weekday_order. Weekday_Name x = Some d"
    and perm: "mset fdf' = mset fdf"
  shows "weekday_df fdf' meds = weekday_df fdf meds"
proof -
  have s: "set fdf' = set fdf"
    using perm by (rule mset_eq_setD)
  have "mean (column c (filter P fdf')) = mean (column c (filter P fdf))" for c P
    by (rule mean_mset) (simp add: column_def perm)
  then show ?thesis
    using names by (simp add: weekday_df_ordered s)
qed

text \<open>
  C5. On the filtered subset of a loaded data set the weekday aggregation has one row for
  each weekday that has a row in the subset and none for the other weekdays; the rows
  stand in the order Monday to Sunday; the values of a row are, for each selected
  medication, the arithmetic mean of the non-null values of that column over the rows of
  that weekday (null when there is none). A rearrangement of the subset's rows gives the
  same result.
\<close>

theorem weekday_df_canonical:
  assumes "fdf = filtered_df (load_data td csv) yr ms dr"
  shows "weekday_df fdf meds =
       map (\<lambda>d. (Some d,
                  map (\<lambda>c. mean (column c (filter (\<lambda>r. Weekday_Name r = Some d) fdf))) meds))
         (filter (\<lambda>d. Some d \<in> Weekday_Name ` set fdf) weekday_order)
     \<and> map fst (weekday_df fdf meds) =
         map Some (filter (\<lambda>d. Some d \<in> Weekday_Name ` set fdf) weekday_order)
     \<and> mean s = (if dropna s = [] then None
                 else Some (sum_list (dropna s) / real (length (dropna s))))
     \<and> (mset fdf' = mset fdf \<longrightarrow> weekday_df fdf' meds = weekday_df fdf meds)"
proof -
  have names: "\<forall>x \<in> set fdf. \<exists>d \<in> set weekday_order. Weekday_Name x = Some d"
    unfolding assms using filtered_loaded_weekday by blast
  have a: "weekday_df fdf meds =
       map (\<lambda>d. (Some d,
                  map (\<lambda>c. mean (column c (filter (\<lambda>r. Weekday_Name r = Some d) fdf))) meds))
         (filter (\<lambda>d. Some d \<in> Weekday_Name ` set fdf) weekday_order)"
    using names by (rule weekday_df_ordered)
  have b: "map fst (weekday_df fdf meds) =
         map Some (filter (\<lambda>d. Some d \<in> Weekday_Name ` set fdf) weekday_order)"
    by (simp add: a comp_def)
  have c: "mean s = (if dropna s = [] then None
                 else Some (sum_list (dropna s) / real (length (dropna s))))"
    by (simp add: mean_def Let_def)
  have d: "mset fdf' = mset fdf \<longrightarrow> weekday_df fdf' meds = weekday_df fdf meds"
    using names weekday_df_rearranged by blast
  from a b c d show ?thesis by blast
qed

lemma sample_january:
  "filtered_df sample_df (2023, 2023) [Some 1] (1, 31)
     = [sample_df ! 0, sample_df ! 1, sample_df ! 4]"
  by (simp add: filtered_df_filter sample_df_rows spec_keeps_def in_range_def)

theorem weekday_df_canonical_witness:
  "weekday_df (filtered_df sample_df (2023, 2023) [Some 1] (1, 31)) [''DrugA'', ''DrugB'']
     = [(Some ''Monday'', [Some 3, None]), (Some ''Sunday'', [Some (5 / 2), Some 4])]
   \<and> weekday_df [sample_df ! 4, sample_df ! 1, sample_df ! 0] [''DrugA'', ''DrugB'']
     = [(Some ''Monday'', [Some 3, None]), (Some ''Sunday'', [Some (5 / 2), Some 4])]"
proof -
  have p: "mset [sample_df ! 4, sample_df ! 1, sample_df ! 0]
      = mset (filtered_df sample_df (2023, 2023) [Some 1] (1, 31))"
    by (simp add: sample_january)
  have e: "map (\<lambda>d. (Some d,
                  map (\<lambda>c. mean (column c (filter (\<lambda>r. Weekday_Name r = Some d)
                     [sample_df ! 0, sample_df ! 1, sample_df ! 4]))) [''DrugA'', ''DrugB'']))
         (filter (\<lambda>d. Some d \<in> Weekday_Name ` set [sample_df ! 0, sample_df ! 1, sample_df ! 4])
            weekday_order)
       = [(Some ''Monday'', [Some 3, None]), (Some ''Sunday'', [Some (5 / 2), Some 4])]"
    by (simp add: sample_df_rows weekday_order_def mean_def column_def)
  from weekday_df_canonical[where td = sample_to_datetime and csv = sample_csv
      and yr = "(2023, 2023)" and ms = "[Some 1]" and dr = "(1, 31)"
      and meds = "[''DrugA'', ''DrugB'']"
      and fdf' = "[sample_df ! 4, sample_df ! 1, sample_df ! 0]", OF refl] p e
  show ?thesis
    by (simp add: sample_df_def[symmetric] sample_january)
qed

section \<open>The statistics summary\<close>

lemma interpolate_bounds:
  assumes "sorted ys" and "ys \<noteq> []" and "0 \<le> h" and "h \<le> real (length ys - 1)"
  shows "ys ! nat \<lfloor>h\<rfloor> \<le> interpolate ys h"
    and "interpolate ys h \<le> ys ! min (nat \<lfloor>h\<rfloor> + 1) (length ys - 1)"
proof -
  define lo where "lo = nat \<lfloor>h\<rfloor>"
  define hi where "hi = min (lo + 1) (length ys - 1)"
  have lo_le: "real lo \<le> h"
    using assms(3) by (simp add: lo_def)
  have lo_gt: "h < real lo + 1"
    using assms(3) unfolding lo_def by linarith
  have "real lo \<le> real (length ys - 1)"
    using lo_le assms(4) by linarith
  then have lo_n: "lo \<le> length ys - 1"
    by simp
  have n: "0 < length ys"
    using assms(2) by simp
  have hi_n: "hi < length ys" and lo_hi: "lo \<le> hi"
    using n lo_n unfolding hi_def by linarith+
  have ab: "ys ! lo \<le> ys ! hi"
    using assms(1) lo_hi hi_n by (rule sorted_nth_mono)
  have f0: "0 \<le> h - real lo" and f1: "h - real lo \<le> 1"
    using lo_le lo_gt by simp_all
  have e: "interpolate ys h = ys ! lo + (h - real lo) * (ys ! hi - ys ! lo)"
    by (simp add: interpolate_def Let_def lo_def hi_def)
  have "0 \<le> (h - real lo) * (ys ! hi - ys ! lo)"
    using f0 ab by simp
  then show "ys ! nat \<lfloor>h\<rfloor> \<le> interpolate ys h"
    by (simp add: e lo_def[symmetric])
  have "(h - real lo) * (ys ! hi - ys ! lo) \<le> 1 * (ys ! hi - ys ! lo)"
    using f1 ab by (intro mult_right_mono) simp_all
  then have "interpolate ys h \<le> ys ! hi"
    by (simp add: e)
  then show "interpolate ys h \<le> ys ! min (nat \<lfloor>h\<rfloor> + 1) (length ys - 1)"
    by (simp only: hi_def lo_def)
qed

lemma interpolate_mono:
  assumes "sorted ys" and "ys \<noteq> []" and "0 \<le> h" and "h \<le> h'"
    and "h' \<le> real (length ys - 1)"
  shows "interpolate ys h \<le> interpolate ys h'"
proof (cases "nat \<lfloor>h\<rfloor> = nat \<lfloor>h'\<rfloor>")
  case True
  define lo where "lo = nat \<lfloor>h\<rfloor>"
  define hi where "hi = min (lo + 1) (length ys - 1)"
  have "real lo \<le> h"
    using assms(3) by (simp add: lo_def)
  then have "real lo \<le> real (length ys - 1)"
    using assms(4,5) by linarith
  then have lo_n: "lo \<le> length ys - 1"
    by simp
  have n: "0 < length ys"
    using assms(2) by simp
  have "hi < length ys" and "lo \<le> hi"
    using n lo_n unfolding hi_def by linarith+
  with assms(1) have ab: "ys ! lo \<le> ys ! hi"
    by (intro sorted_nth_mono)
  have "interpolate ys h' - interpolate ys h = (h' - h) * (ys ! hi - ys ! lo)"
    using True by (simp add: interpolate_def Let_def lo_def hi_def algebra_simps)
  moreover have "0 \<le> (h' - h) * (ys ! hi - ys ! lo)"
    using assms(4) ab by simp
  ultimately show ?thesis
    by linarith
next
  case False
  have "\<lfloor>h\<rfloor> \<le> \<lfloor>h'\<rfloor>"
    using assms(4) by (rule floor_mono)
  with False have lt: "nat \<lfloor>h\<rfloor> < nat \<lfloor>h'\<rfloor>"
    by linarith
  have h0: "0 \<le> h'" and hn: "h \<le> real (length ys - 1)"
    using assms(3,4,5) by linarith+
  have "real (nat \<lfloor>h'\<rfloor>) \<le> h'"
    using h0 by simp
  then have "real (nat \<lfloor>h'\<rfloor>) \<le> real (length ys - 1)"
    using assms(5) by linarith
  then have lo'_n: "nat \<lfloor>h'\<rfloor> \<le> length ys - 1"
    by simp
  then have lo'_lt: "nat \<lfloor>h'\<rfloor> < length ys"
    using assms(2) by (cases ys) auto
  have "nat \<lfloor>h\<rfloor> + 1 \<le> nat \<lfloor>h'\<rfloor>"
    using lt by linarith
  then have "min (nat \<lfloor>h\<rfloor> + 1) (length ys - 1) \<le> nat \<lfloor>h'\<rfloor>"
    by (rule min.coboundedI1)
  with assms(1) lo'_lt have "ys ! min (nat \<lfloor>h\<rfloor> + 1) (length ys - 1) \<le> ys ! nat \<lfloor>h'\<rfloor>"
    by (intro sorted_nth_mono)
  moreover have "interpolate ys h \<le> ys ! min (nat \<lfloor>h\<rfloor> + 1) (length ys - 1)"
    using assms(1,2,3) hn by (rule interpolate_bounds)
  moreover have "ys ! nat \<lfloor>h'\<rfloor> \<le> interpolate ys h'"
    using assms(1,2) h0 assms(5) by (rule interpolate_bounds)
  ultimately show ?thesis
    by linarith
qed

lemma interpolate_at_index: "interpolate ys (real k) = ys ! k"
  by (simp add: interpolate_def Let_def)

lemma sorted_Min_nth:
  assumes "sorted zs" and "zs \<noteq> []"
  shows "Min (set zs) = zs ! 0" and "Max (set zs) = zs ! (length zs - 1)"
proof -
  have n: "0 < length zs"
    using assms(2) by simp
  show "Min (set zs) = zs ! 0"
  proof (rule Min_eqI)
    show "finite (set zs)" by simp
    show "zs ! 0 \<in> set zs" using n by simp
    fix y assume "y \<in> set zs"
    then obtain i where "i < length zs" "y = zs ! i"
      by (auto simp: in_set_conv_nth)
    with assms(1) show "zs ! 0 \<le> y"
      by (simp add: sorted_nth_mono)
  qed
  show "Max (set zs) = zs ! (length zs - 1)"
  proof (rule Max_eqI)
    show "finite (set zs)" by simp
    show "zs ! (length zs - 1) \<in> set zs" using n by simp
    fix y assume "y \<in> set zs"
    then obtain i where "i < length zs" "y = zs ! i"
      by (auto simp: in_set_conv_nth)
    with assms(1) n show "y \<le> zs ! (length zs - 1)"
      by (simp add: sorted_nth_mono)
  qed
qed

lemma min_skipna_Min:
  "dropna s \<noteq> [] \<Longrightarrow> min_skipna s = Some (Min (set (dropna s)))"
  by (cases "dropna s") (simp_all add: min_skipna_def Min.set_eq_fold[symmetric])

lemma max_skipna_Max:
  "dropna s \<noteq> [] \<Longrightarrow> max_skipna s = Some (Max (set (dropna s)))"
  by (cases "dropna s") (simp_all add: max_skipna_def Max.set_eq_fold[symmetric])

lemma sort_eq_Nil: "(sort xs = []) = (xs = [])"
  by (metis length_0_conv length_sort)

lemma quantile_some:
  "dropna s \<noteq> [] \<Longrightarrow>
     quantile s q = Some (interpolate (sort (dropna s)) (q * real (length (dropna s) - 1)))"
  by (simp add: quantile_def Let_def sort_eq_Nil)

lemma quantile_none: "dropna s = [] \<Longrightarrow> quantile s q = None"
  by (simp add: quantile_def Let_def)

lemma quantile_mono:
  assumes "dropna s \<noteq> []" and "0 \<le> q" and "q \<le> q'" and "q' \<le> 1"
  shows "interpolate (sort (dropna s)) (q * real (length (dropna s) - 1))
       \<le> interpolate (sort (dropna s)) (q' * real (length (dropna s) - 1))"
proof -
  have "0 \<le> q * real (length (dropna s) - 1)"
    using assms(2) by simp
  moreover have "q * real (length (dropna s) - 1) \<le> q' * real (length (dropna s) - 1)"
    using assms(3) by (intro mult_right_mono) simp_all
  moreover have "q' * real (length (dropna s) - 1) \<le> 1 * real (length (dropna s) - 1)"
    using assms(4) by (intro mult_right_mono) simp_all
  then have "q' * real (length (dropna s) - 1) \<le> real (length (sort (dropna s)) - 1)"
    by simp
  moreover have "sorted (sort (dropna s))"
    by simp
  moreover have "sort (dropna s) \<noteq> []"
    using assms(1) by (metis length_0_conv length_sort)
  ultimately show ?thesis
    by (intro interpolate_mono)
qed

lemma quantile_ends:
  assumes "dropna s \<noteq> []"
  shows "interpolate (sort (dropna s)) (0 * real (length (dropna s) - 1)) = Min (set (dropna s))"
    and "interpolate (sort (dropna s)) (1 * real (length (dropna s) - 1)) = Max (set (dropna s))"
proof -
  have s: "sorted (sort (dropna s))" by simp
  have n: "sort (dropna s) \<noteq> []"
    using assms by (metis length_0_conv length_sort)
  from sorted_Min_nth[OF s n]
  have a: "Min (set (dropna s)) = sort (dropna s) ! 0"
    and b: "Max (set (dropna s)) = sort (dropna s) ! (length (dropna s) - 1)"
    by simp_all
  have "interpolate (sort (dropna s)) (real (0::nat)) = sort (dropna s) ! 0"
    by (rule interpolate_at_index)
  then show "interpolate (sort (dropna s)) (0 * real (length (dropna s) - 1)) = Min (set (dropna s))"
    by (simp add: a)
  show "interpolate (sort (dropna s)) (1 * real (length (dropna s) - 1)) = Max (set (dropna s))"
    by (simp add: b interpolate_at_index)
qed

lemma median_odd:
  assumes "odd (length (dropna s))"
  shows "quantile s (1 / 2) = Some (sort (dropna s) ! (length (dropna s) div 2))"
proof -
  from assms obtain k where k: "length (dropna s) = 2 * k + 1"
    by (auto elim: oddE)
  then have ne: "dropna s \<noteq> []" by auto
  have "1 / 2 * real (length (dropna s) - 1) = real k"
    by (simp add: k)
  then show ?thesis
    by (simp add: quantile_some[OF ne] interpolate_at_index k)
qed

lemma median_even:
  assumes "even (length (dropna s))" and "dropna s \<noteq> []"
  shows "quantile s (1 / 2) =
     Some ((sort (dropna s) ! (length (dropna s) div 2 - 1)
            + sort (dropna s) ! (length (dropna s) div 2)) / 2)"
proof -
  from assms(1) obtain k where k: "length (dropna s) = 2 * k"
    by (auto elim: evenE)
  have k0: "0 < k"
    using assms(2) k by (cases k) auto
  obtain j where j: "k = Suc j"
    using k0 by (cases k) auto
  have h: "1 / 2 * real (length (dropna s) - 1) = real j + 1 / 2"
    by (simp add: k j)
  have f: "nat \<lfloor>real j + 1 / 2\<rfloor> = j"
    by linarith
  have i: "interpolate (sort (dropna s)) (real j + 1 / 2)
      = (sort (dropna s) ! j + sort (dropna s) ! (j + 1)) / 2"
    unfolding interpolate_def Let_def f
    by (simp add: k j field_simps)
  show ?thesis
    unfolding quantile_some[OF assms(2)] h i
    by (simp add: k j)
qed

lemma dropna_filter: "dropna xs = map the (filter (\<lambda>v. v \<noteq> None) xs)"
  by (induction xs) (auto split: option.splits)

lemma int64_values_all: "int64_values (map (\<lambda>w. Some (Int64 w)) ws) = Some ws"
  by (induction ws) simp_all

lemma int64_values_other:
  "\<exists>x \<in> set s. x = None \<or> (\<exists>v. x = Some (Float64 v)) \<Longrightarrow> int64_values s = None"
  by (induction s rule: int64_values.induct) auto

lemma word_sum_list: "(sum_list ws :: 64 word) = word_of_int (\<Sum>w\<leftarrow>ws. sint w)"
  by (induction ws) simp_all

lemma sint_sum_list:
  "sint (sum_list ws :: 64 word) = signed_take_bit 63 (\<Sum>w\<leftarrow>ws. sint w)"
  by (simp add: word_sum_list signed_of_int)

lemma to_float_int64_column:
  "dropna (map (map_option to_float) (map (\<lambda>w. Some (Int64 w)) ws))
     = map (\<lambda>w. real_of_int (sint w)) ws"
  by (induction ws) simp_all

lemma sum_list_real_of_int:
  "sum_list (map (\<lambda>w. real_of_int (f w)) ws) = real_of_int (\<Sum>w\<leftarrow>ws. f w)"
  by (induction ws) simp_all

lemma interpolate_formula:
  "interpolate zs h =
     zs ! nat \<lfloor>h\<rfloor>
     + (h - real (nat \<lfloor>h\<rfloor>)) * (zs ! min (nat \<lfloor>h\<rfloor> + 1) (length zs - 1) - zs ! nat \<lfloor>h\<rfloor>)"
  by (simp add: interpolate_def Let_def)

text \<open>
  C6, as the code has it. For each selected medication the statistics table has one row of
  nine values over the non-null values \<open>ys\<close> of that column in the subset, \<open>zs\<close> being
  these values in ascending order and \<open>n\<close> their number: the count \<open>n\<close>, the arithmetic
  mean, the sample standard deviation (the divisor is \<open>n - 1\<close>, and it is null for
  \<open>n < 2\<close>), the least value, the 25th, 50th and 75th percentiles, the greatest value
  and the total. The percentile of the fraction \<open>q\<close> is read at position
  \<open>h = q * (n - 1)\<close> of \<open>zs\<close>, between the two neighbours of that position in
  proportion. The total of a \<open>float64\<close> column is the arithmetic total of \<open>ys\<close>; the
  total of an \<open>int64\<close> column is the arithmetic total taken modulo \<open>2 ^ 64\<close> into the
  signed 64-bit range, which is the arithmetic total when that lies in the range.
\<close>

theorem stats_df_summary:
  assumes "s = map (\<lambda>r. cell r c) fdf"
    and "ys = map the (filter (\<lambda>v. v \<noteq> None)
           (map (map_option (\<lambda>x. case x of Int64 w \<Rightarrow> real_of_int (sint w) | Float64 v \<Rightarrow> v)) s))"
    and "zs = sort ys" and "n = length ys"
    and "st = describe_sum s"
    and "h1 = (real n - 1) / 4" and "h2 = (real n - 1) / 2" and "h3 = 3 * (real n - 1) / 4"
  shows "map fst (stats_df fdf meds) = meds
    \<and> (c \<in> set meds \<longrightarrow> (c, st) \<in> set (stats_df fdf meds))
    \<and> Count st = n
    \<and> Mean st = (if n = 0 then None else Some (sum_list ys / real n))
    \<and> (n < 2 \<longrightarrow> Std_Dev st = None)
    \<and> (2 \<le> n \<longrightarrow>
         Std_Dev st = Some (sqrt ((\<Sum>y\<leftarrow>ys. (y - sum_list ys / real n)\<^sup>2) / (real n - 1))))
    \<and> (n = 0 \<longrightarrow> Minimum st = None \<and> Pct25 st = None \<and> Median st = None
           \<and> Pct75 st = None \<and> Maximum st = None)
    \<and> (0 < n \<longrightarrow>
         Minimum st = Some (Min (set ys)) \<and> Maximum st = Some (Max (set ys))
         \<and> Pct25 st = Some (zs ! nat \<lfloor>h1\<rfloor>
              + (h1 - real (nat \<lfloor>h1\<rfloor>)) * (zs ! min (nat \<lfloor>h1\<rfloor> + 1) (n - 1) - zs ! nat \<lfloor>h1\<rfloor>))
         \<and> Median st = Some (zs ! nat \<lfloor>h2\<rfloor>
              + (h2 - real (nat \<lfloor>h2\<rfloor>)) * (zs ! min (nat \<lfloor>h2\<rfloor> + 1) (n - 1) - zs ! nat \<lfloor>h2\<rfloor>))
         \<and> Pct75 st = Some (zs ! nat \<lfloor>h3\<rfloor>
              + (h3 - real (nat \<lfloor>h3\<rfloor>)) * (zs ! min (nat \<lfloor>h3\<rfloor> + 1) (n - 1) - zs ! nat \<lfloor>h3\<rfloor>))
         \<and> (\<exists>a m b. Pct25 st = Some a \<and> Median st = Some m \<and> Pct75 st = Some b
               \<and> Min (set ys) \<le> a \<and> a \<le> m \<and> m \<le> b \<and> b \<le> Max (set ys)))
    \<and> (odd n \<longrightarrow> Median st = Some (zs ! (n div 2)))
    \<and> (even n \<and> 0 < n \<longrightarrow> Median st = Some ((zs ! (n div 2 - 1) + zs ! (n div 2)) / 2))
    \<and> (s = map (\<lambda>w. Some (Int64 w)) ws \<longrightarrow>
         Total st = real_of_int (signed_take_bit 63 (\<Sum>w\<leftarrow>ws. sint w)))
    \<and> (s = map (\<lambda>w. Some (Int64 w)) ws \<and> - (2 ^ 63) \<le> (\<Sum>w\<leftarrow>ws. sint w)
          \<and> (\<Sum>w\<leftarrow>ws. sint w) < 2 ^ 63
        \<longrightarrow> Total st = sum_list ys)
    \<and> ((\<exists>x \<in> set s. x = None \<or> (\<exists>v. x = Some (Float64 v))) \<longrightarrow> Total st = sum_list ys)"
proof -
  define f where "f = map (map_option to_float) s"
  have tf: "to_float = (\<lambda>x. case x of Int64 w \<Rightarrow> real_of_int (sint w) | Float64 v \<Rightarrow> v)"
    by (rule ext) (simp split: number.split)
  have ys: "ys = dropna f"
    unfolding assms(2) f_def dropna_filter tf by (rule refl)
  have len: "length (sort (dropna f)) = n"
    by (simp add: ys assms(4))
  have st: "Count st = count_nonnull f" "Mean st = mean f" "Std_Dev st = std f"
    "Minimum st = min_skipna f" "Pct25 st = quantile f (1 / 4)"
    "Median st = quantile f (1 / 2)" "Pct75 st = quantile f (3 / 4)"
    "Maximum st = max_skipna f" "Total st = sum_skipna s"
    by (simp_all add: assms(5) describe_sum_def Let_def f_def)
  have c1: "map fst (stats_df fdf meds) = meds"
    by (simp add: stats_df_def comp_def)
  have c2: "c \<in> set meds \<longrightarrow> (c, st) \<in> set (stats_df fdf meds)"
    by (auto simp: stats_df_def cells_def assms(1,5))
  have c3: "Count st = n"
    by (simp add: st count_nonnull_def ys assms(4))
  have c4: "Mean st = (if n = 0 then None else Some (sum_list ys / real n))"
    by (simp add: st mean_def Let_def ys assms(4))
  have c5: "n < 2 \<longrightarrow> Std_Dev st = None"
    by (simp add: st std_def Let_def ys assms(4))
  have c6: "2 \<le> n \<longrightarrow>
         Std_Dev st = Some (sqrt ((\<Sum>y\<leftarrow>ys. (y - sum_list ys / real n)\<^sup>2) / (real n - 1)))"
    by (simp add: st std_def ssqdm_def Let_def ys assms(4) of_nat_diff)
  have c7: "n = 0 \<longrightarrow> Minimum st = None \<and> Pct25 st = None \<and> Median st = None
           \<and> Pct75 st = None \<and> Maximum st = None"
    by (simp add: st ys assms(4) quantile_none min_skipna_def max_skipna_def)
  have c8: "0 < n \<longrightarrow>
         Minimum st = Some (Min (set ys)) \<and> Maximum st = Some (Max (set ys))
         \<and> Pct25 st = Some (zs ! nat \<lfloor>h1\<rfloor>
              + (h1 - real (nat \<lfloor>h1\<rfloor>)) * (zs ! min (nat \<lfloor>h1\<rfloor> + 1) (n - 1) - zs ! nat \<lfloor>h1\<rfloor>))
         \<and> Median st = Some (zs ! nat \<lfloor>h2\<rfloor>
              + (h2 - real (nat \<lfloor>h2\<rfloor>)) * (zs ! min (nat \<lfloor>h2\<rfloor> + 1) (n - 1) - zs ! nat \<lfloor>h2\<rfloor>))
         \<and> Pct75 st = Some (zs ! nat \<lfloor>h3\<rfloor>
              + (h3 - real (nat \<lfloor>h3\<rfloor>)) * (zs ! min (nat \<lfloor>h3\<rfloor> + 1) (n - 1) - zs ! nat \<lfloor>h3\<rfloor>))
         \<and> (\<exists>a m b. Pct25 st = Some a \<and> Median st = Some m \<and> Pct75 st = Some b
               \<and> Min (set ys) \<le> a \<and> a \<le> m \<and> m \<le> b \<and> b \<le> Max (set ys))"
  proof
    assume pos: "0 < n"
    then have ne: "dropna f \<noteq> []"
      by (auto simp: ys assms(4))
    have "1 \<le> length (dropna f)"
      using ne by (cases "dropna f") simp_all
    then have "real (length (dropna f) - 1) = real (length (dropna f)) - 1"
      by (simp add: of_nat_diff)
    then have r: "real (length (dropna f) - 1) = real n - 1"
      by (simp add: ys assms(4))
    have e1: "1 / 4 * real (length (dropna f) - 1) = h1"
      and e2: "1 / 2 * real (length (dropna f) - 1) = h2"
      and e3: "3 / 4 * real (length (dropna f) - 1) = h3"
      unfolding r assms(6,7,8) by simp_all
    have zs: "sort (dropna f) = zs"
      by (simp add: ys assms(3))
    have lz: "length zs = n"
      using len by (simp add: zs)
    have q1: "Pct25 st = Some (interpolate zs h1)"
      and q2: "Median st = Some (interpolate zs h2)"
      and q3: "Pct75 st = Some (interpolate zs h3)"
      unfolding st quantile_some[OF ne] e1 e2 e3 zs by (rule refl)+
    have mn: "Minimum st = Some (Min (set ys))" and mx: "Maximum st = Some (Max (set ys))"
      by (simp_all add: st min_skipna_Min[OF ne] max_skipna_Max[OF ne] ys)
    have o1: "Min (set ys) \<le> interpolate zs h1"
      using quantile_mono[OF ne, of 0 "1 / 4"] quantile_ends(1)[OF ne]
      unfolding e1 zs by (simp add: ys)
    have o2: "interpolate zs h1 \<le> interpolate zs h2"
      using quantile_mono[OF ne, of "1 / 4" "1 / 2"] unfolding e1 e2 zs by simp
    have o3: "interpolate zs h2 \<le> interpolate zs h3"
      using quantile_mono[OF ne, of "1 / 2" "3 / 4"] unfolding e2 e3 zs by simp
    have o4: "interpolate zs h3 \<le> Max (set ys)"
      using quantile_mono[OF ne, of "3 / 4" 1] quantile_ends(2)[OF ne]
      unfolding e3 zs by (simp add: ys)
    have ch: "\<exists>a m b. Pct25 st = Some a \<and> Median st = Some m \<and> Pct75 st = Some b
               \<and> Min (set ys) \<le> a \<and> a \<le> m \<and> m \<le> b \<and> b \<le> Max (set ys)"
      using q1 q2 q3 o1 o2 o3 o4 by blast
    from q1 q2 q3 mn mx ch
    show "Minimum st = Some (Min (set ys)) \<and> Maximum st = Some (Max (set ys))
         \<and> Pct25 st = Some (zs ! nat \<lfloor>h1\<rfloor>
              + (h1 - real (nat \<lfloor>h1\<rfloor>)) * (zs ! min (nat \<lfloor>h1\<rfloor> + 1) (n - 1) - zs ! nat \<lfloor>h1\<rfloor>))
         \<and> Median st = Some (zs ! nat \<lfloor>h2\<rfloor>
              + (h2 - real (nat \<lfloor>h2\<rfloor>)) * (zs ! min (nat \<lfloor>h2\<rfloor> + 1) (n - 1) - zs ! nat \<lfloor>h2\<rfloor>))
         \<and> Pct75 st = Some (zs ! nat \<lfloor>h3\<rfloor>
              + (h3 - real (nat \<lfloor>h3\<rfloor>)) * (zs ! min (nat \<lfloor>h3\<rfloor> + 1) (n - 1) - zs ! nat \<lfloor>h3\<rfloor>))
         \<and> (\<exists>a m b. Pct25 st = Some a \<and> Median st = Some m \<and> Pct75 st = Some b
               \<and> Min (set ys) \<le> a \<and> a \<le> m \<and> m \<le> b \<and> b \<le> Max (set ys))"
      unfolding interpolate_formula lz by blast
  qed
  have c9: "odd n \<longrightarrow> Median st = Some (zs ! (n div 2))"
    using median_odd[of f] by (simp add: st ys[symmetric] assms(3,4))
  have c10: "even n \<and> 0 < n \<longrightarrow> Median st = Some ((zs ! (n div 2 - 1) + zs ! (n div 2)) / 2)"
    using median_even[of f] by (auto simp: st ys[symmetric] assms(3,4))
  have c11: "s = map (\<lambda>w. Some (Int64 w)) ws \<longrightarrow>
         Total st = real_of_int (signed_take_bit 63 (\<Sum>w\<leftarrow>ws. sint w))"
    by (simp add: st sum_skipna_def int64_values_all sint_sum_list)
  have c12: "s = map (\<lambda>w. Some (Int64 w)) ws \<and> - (2 ^ 63) \<le> (\<Sum>w\<leftarrow>ws. sint w)
          \<and> (\<Sum>w\<leftarrow>ws. sint w) < 2 ^ 63
        \<longrightarrow> Total st = sum_list ys"
  proof
    assume a: "s = map (\<lambda>w. Some (Int64 w)) ws \<and> - (2 ^ 63) \<le> (\<Sum>w\<leftarrow>ws. sint w)
          \<and> (\<Sum>w\<leftarrow>ws. sint w) < 2 ^ 63"
    then have "signed_take_bit 63 (\<Sum>w\<leftarrow>ws. sint w) = (\<Sum>w\<leftarrow>ws. sint w)"
      by (simp add: signed_take_bit_int_eq_self)
    with a c11 have t: "Total st = real_of_int (\<Sum>w\<leftarrow>ws. sint w)"
      by simp
    from a have sw: "s = map (\<lambda>w. Some (Int64 w)) ws"
      by (rule conjunct1)
    have y: "ys = map (\<lambda>w. real_of_int (sint w)) ws"
      unfolding ys f_def sw by (rule to_float_int64_column)
    show "Total st = sum_list ys"
      unfolding t y sum_list_real_of_int by (rule refl)
  qed
  have c13: "(\<exists>x \<in> set s. x = None \<or> (\<exists>v. x = Some (Float64 v))) \<longrightarrow> Total st = sum_list ys"
    using int64_values_other[of s] by (auto simp: st sum_skipna_def ys f_def)
  from c1 c2 c3 c4 c5 c6 c7 c8 c9 c10 c11 c12 c13 show ?thesis
    by blast
qed


lemma sample_cells:
  "map (\<lambda>r. cell r ''DrugA'') [sample_df ! 0, sample_df ! 1, sample_df ! 4]
     = [Some (Int64 1), Some (Int64 3), Some (Int64 4)]"
  "map (\<lambda>r. cell r ''DrugB'') [sample_df ! 0, sample_df ! 1, sample_df ! 4]
     = [Some (Float64 2), None, Some (Float64 6)]"
  "map (\<lambda>r. cell r ''DrugA'') [sample_df ! 1] = [Some (Int64 3)]"
  "map (\<lambda>r. cell r ''DrugB'') [sample_df ! 1] = [None]"
  by (simp_all add: sample_df_rows)

theorem stats_df_summary_witness:
  "(''DrugA'', describe_sum (cells ''DrugA'' [sample_df ! 0, sample_df ! 1, sample_df ! 4]))
     \<in> set (stats_df [sample_df ! 0, sample_df ! 1, sample_df ! 4] [''DrugA''])
   \<and> Count (describe_sum (cells ''DrugA'' [sample_df ! 0, sample_df ! 1, sample_df ! 4])) = 3
   \<and> Mean (describe_sum (cells ''DrugA'' [sample_df ! 0, sample_df ! 1, sample_df ! 4]))
       = Some (8 / 3)
   \<and> Std_Dev (describe_sum (cells ''DrugA'' [sample_df ! 0, sample_df ! 1, sample_df ! 4]))
       = Some (sqrt (7 / 3))
   \<and> Minimum (describe_sum (cells ''DrugA'' [sample_df ! 0, sample_df ! 1, sample_df ! 4]))
       = Some 1
   \<and> Pct25 (describe_sum (cells ''DrugA'' [sample_df ! 0, sample_df ! 1, sample_df ! 4]))
       = Some 2
   \<and> Median (describe_sum (cells ''DrugA'' [sample_df ! 0, sample_df ! 1, sample_df ! 4]))
       = Some 3
   \<and> Pct75 (describe_sum (cells ''DrugA'' [sample_df ! 0, sample_df ! 1, sample_df ! 4]))
       = Some (7 / 2)
   \<and> Maximum (describe_sum (cells ''DrugA'' [sample_df ! 0, sample_df ! 1, sample_df ! 4]))
       = Some 4
   \<and> Total (describe_sum (cells ''DrugA'' [sample_df ! 0, sample_df ! 1, sample_df ! 4])) = 8
   \<and> Count (describe_sum (cells ''DrugB'' [sample_df ! 0, sample_df ! 1, sample_df ! 4])) = 2
   \<and> Pct25 (describe_sum (cells ''DrugB'' [sample_df ! 0, sample_df ! 1, sample_df ! 4]))
       = Some 3
   \<and> Median (describe_sum (cells ''DrugB'' [sample_df ! 0, sample_df ! 1, sample_df ! 4]))
       = Some 4
   \<and> Pct75 (describe_sum (cells ''DrugB'' [sample_df ! 0, sample_df ! 1, sample_df ! 4]))
       = Some 5
   \<and> Total (describe_sum (cells ''DrugB'' [sample_df ! 0, sample_df ! 1, sample_df ! 4])) = 8
   \<and> Count (describe_sum (cells ''DrugA'' [sample_df ! 1])) = 1
   \<and> Std_Dev (describe_sum (cells ''DrugA'' [sample_df ! 1])) = None
   \<and> Count (describe_sum (cells ''DrugB'' [sample_df ! 1])) = 0
   \<and> Mean (describe_sum (cells ''DrugB'' [sample_df ! 1])) = None
   \<and> Std_Dev (describe_sum (cells ''DrugB'' [sample_df ! 1])) = None
   \<and> Minimum (describe_sum (cells ''DrugB'' [sample_df ! 1])) = None
   \<and> Total (describe_sum (cells ''DrugB'' [sample_df ! 1])) = 0"
proof -
  note t = stats_df_summary[OF refl refl refl refl refl refl refl refl,
      where meds = "[''DrugA'']"]
  note a = t[where c = "''DrugA''" and fdf = "[sample_df ! 0, sample_df ! 1, sample_df ! 4]"
      and ws = "[1, 3, 4]"]
  note b = t[where c = "''DrugB''" and fdf = "[sample_df ! 0, sample_df ! 1, sample_df ! 4]"
      and ws = "[]"]
  note c = t[where c = "''DrugA''" and fdf = "[sample_df ! 1]" and ws = "[3]"]
  note d = t[where c = "''DrugB''" and fdf = "[sample_df ! 1]" and ws = "[]"]
  have 1: "(''DrugA'', describe_sum (cells ''DrugA'' [sample_df ! 0, sample_df ! 1, sample_df ! 4]))
     \<in> set (stats_df [sample_df ! 0, sample_df ! 1, sample_df ! 4] [''DrugA''])
   \<and> Count (describe_sum (cells ''DrugA'' [sample_df ! 0, sample_df ! 1, sample_df ! 4])) = 3
   \<and> Mean (describe_sum (cells ''DrugA'' [sample_df ! 0, sample_df ! 1, sample_df ! 4]))
       = Some (8 / 3)
   \<and> Std_Dev (describe_sum (cells ''DrugA'' [sample_df ! 0, sample_df ! 1, sample_df ! 4]))
       = Some (sqrt (7 / 3))
   \<and> Minimum (describe_sum (cells ''DrugA'' [sample_df ! 0, sample_df ! 1, sample_df ! 4]))
       = Some 1
   \<and> Pct25 (describe_sum (cells ''DrugA'' [sample_df ! 0, sample_df ! 1, sample_df ! 4]))
       = Some 2
   \<and> Median (describe_sum (cells ''DrugA'' [sample_df ! 0, sample_df ! 1, sample_df ! 4]))
       = Some 3
   \<and> Pct75 (describe_sum (cells ''DrugA'' [sample_df ! 0, sample_df ! 1, sample_df ! 4]))
       = Some (7 / 2)
   \<and> Maximum (describe_sum (cells ''DrugA'' [sample_df ! 0, sample_df ! 1, sample_df ! 4]))
       = Some 4
   \<and> Total (describe_sum (cells ''DrugA'' [sample_df ! 0, sample_df ! 1, sample_df ! 4])) = 8"
    using a unfolding cells_def sample_cells
    by (simp add: power2_eq_square)
  have 2: "Count (describe_sum (cells ''DrugB'' [sample_df ! 0, sample_df ! 1, sample_df ! 4])) = 2
   \<and> Pct25 (describe_sum (cells ''DrugB'' [sample_df ! 0, sample_df ! 1, sample_df ! 4]))
       = Some 3
   \<and> Median (describe_sum (cells ''DrugB'' [sample_df ! 0, sample_df ! 1, sample_df ! 4]))
       = Some 4
   \<and> Pct75 (describe_sum (cells ''DrugB'' [sample_df ! 0, sample_df ! 1, sample_df ! 4]))
       = Some 5
   \<and> Total (describe_sum (cells ''DrugB'' [sample_df ! 0, sample_df ! 1, sample_df ! 4])) = 8"
    using b unfolding cells_def sample_cells
    by simp
  have 3: "Count (describe_sum (cells ''DrugA'' [sample_df ! 1])) = 1
   \<and> Std_Dev (describe_sum (cells ''DrugA'' [sample_df ! 1])) = None"
    using c unfolding cells_def sample_cells
    by simp
  have 4: "Count (describe_sum (cells ''DrugB'' [sample_df ! 1])) = 0
   \<and> Mean (describe_sum (cells ''DrugB'' [sample_df ! 1])) = None
   \<and> Std_Dev (describe_sum (cells ''DrugB'' [sample_df ! 1])) = None
   \<and> Minimum (describe_sum (cells ''DrugB'' [sample_df ! 1])) = None
   \<and> Total (describe_sum (cells ''DrugB'' [sample_df ! 1])) = 0"
    using d unfolding cells_def sample_cells
    by simp
  from 1 2 3 4 show ?thesis
    by blast
qed

lemma large_filtered:
  "filtered_df (load_data two_year_to_datetime large_csv) (2022, 2023) [Some 1] (1, 31)
     = load_data two_year_to_datetime large_csv"
  by (simp add: filtered_df_filter large_csv_def two_year_to_datetime_def load_data_def
      load_row_def spec_keeps_def in_range_def)

lemma large_cells:
  "cells ''DrugA'' (load_data two_year_to_datetime large_csv)
     = [Some (Int64 4611686018427387904), Some (Int64 4611686018427387904)]"
  by (simp add: cells_def large_csv_def load_data_def load_row_fields)

text \<open>
  The file with twice \<open>2 ^ 62\<close> in the \<open>int64\<close> column \<open>DrugA\<close>: the year range 2022 to
  2023, month 1 and the day range 1 to 31 leave both rows, the arithmetic total of the
  column is \<open>2 ^ 63\<close>, and the total of the table is \<open>- (2 ^ 63)\<close>.
\<close>

theorem stats_total_counterexample:
  "filtered_df (load_data two_year_to_datetime large_csv) (2022, 2023) [Some 1] (1, 31) \<noteq> []
   \<and> Count (describe_sum (cells ''DrugA''
        (filtered_df (load_data two_year_to_datetime large_csv) (2022, 2023) [Some 1] (1, 31))))
      = 2
   \<and> sum_list (dropna (column ''DrugA''
        (filtered_df (load_data two_year_to_datetime large_csv) (2022, 2023) [Some 1] (1, 31))))
      = 9223372036854775808
   \<and> Total (describe_sum (cells ''DrugA''
        (filtered_df (load_data two_year_to_datetime large_csv) (2022, 2023) [Some 1] (1, 31))))
      = - 9223372036854775808"
proof -
  have c: "column ''DrugA'' (load_data two_year_to_datetime large_csv)
      = [Some 4611686018427387904, Some 4611686018427387904]"
    by (simp add: column_def large_csv_def load_data_def load_row_fields)
  have n: "load_data two_year_to_datetime large_csv \<noteq> []"
    by (simp add: large_csv_def load_data_def)
  show ?thesis
    unfolding large_filtered large_cells c
    using n by (simp add: describe_sum_def sum_skipna_def count_nonnull_def Let_def)
qed

section \<open>The correlation matrix\<close>

lemma complete_pairs_filter:
  "complete_pairs a b =
     map (\<lambda>(x, y). (the x, the y)) (filter (\<lambda>(x, y). x \<noteq> None \<and> y \<noteq> None) (zip a b))"
proof -
  have "dropna (map (\<lambda>(x, y). case x of None \<Rightarrow> None
                                | Some u \<Rightarrow> (case y of None \<Rightarrow> None | Some v \<Rightarrow> Some (u, v))) zs)
      = map (\<lambda>(x, y). (the x, the y)) (filter (\<lambda>(x, y). x \<noteq> None \<and> y \<noteq> None) zs)"
    for zs :: "(real option \<times> real option) list"
    by (induction zs) (auto split: option.splits)
  then show ?thesis
    by (simp add: complete_pairs_def)
qed

lemma complete_pairs_swap:
  "complete_pairs b a = map prod.swap (complete_pairs a b)"
  unfolding complete_pairs_def
proof (induction a arbitrary: b)
  case Nil
  then show ?case by simp
next
  case (Cons x xs)
  then show ?case
    by (cases b) (auto split: option.splits)
qed

lemma complete_pairs_same:
  "complete_pairs a a = map (\<lambda>x. (x, x)) (dropna a)"
  unfolding complete_pairs_def
  by (induction a) (auto split: option.splits)

lemma codev_swap: "codev (map prod.swap ps) = codev ps"
  by (simp add: codev_def Let_def comp_def case_prod_unfold mult.commute)

lemma pearson_swap: "pearson (map prod.swap ps) = pearson ps"
  by (simp add: pearson_def Let_def codev_swap comp_def mult.commute)

lemma codev_same: "codev (map (\<lambda>x. (x, x)) ys) = ssqdm ys"
  by (simp add: codev_def ssqdm_def Let_def comp_def power2_eq_square)

lemma ssqdm_nonneg: "0 \<le> ssqdm ys"
  unfolding ssqdm_def Let_def
  by (rule sum_list_nonneg) auto

lemma ssqdm_zero_iff:
  "ssqdm ys = 0 \<longleftrightarrow> (\<forall>x \<in> set ys. \<forall>y \<in> set ys. x = y)"
proof
  assume z: "ssqdm ys = 0"
  define m where "m = sum_list ys / real (length ys)"
  have "sum_list (map (\<lambda>y. (y - m)\<^sup>2) ys) = 0"
    using z by (simp add: ssqdm_def Let_def m_def)
  moreover have "\<And>v. v \<in> set (map (\<lambda>y. (y - m)\<^sup>2) ys) \<Longrightarrow> 0 \<le> v"
    by auto
  ultimately have "\<forall>v \<in> set (map (\<lambda>y. (y - m)\<^sup>2) ys). v = 0"
    by (simp only: sum_list_nonneg_eq_0_iff)
  then have "\<forall>y \<in> set ys. y = m"
    by simp
  then show "\<forall>x \<in> set ys. \<forall>y \<in> set ys. x = y"
    by metis
next
  assume e: "\<forall>x \<in> set ys. \<forall>y \<in> set ys. x = y"
  show "ssqdm ys = 0"
  proof (cases ys)
    case Nil
    then show ?thesis by (simp add: ssqdm_def)
  next
    case (Cons a as)
    then have all: "\<forall>y \<in> set ys. y = a"
      using e by auto
    then have "ys = replicate (length ys) a"
      by (simp add: replicate_length_same)
    then have "sum_list ys = real (length ys) * a"
      by (metis sum_list_replicate mult.commute mult_of_nat_commute)
    then have m: "sum_list ys / real (length ys) = a"
      using Cons by simp
    have "sum_list (map (\<lambda>y. (y - a)\<^sup>2) ys) = 0"
      using all by (induction ys) auto
    then show ?thesis
      by (simp add: ssqdm_def Let_def m)
  qed
qed

lemma pearson_same:
  "pearson (map (\<lambda>x. (x, x)) ys) =
     (if \<exists>x \<in> set ys. \<exists>y \<in> set ys. x \<noteq> y then Some 1 else None)"
proof (cases "ssqdm ys = 0")
  case True
  then have "\<not> (\<exists>x \<in> set ys. \<exists>y \<in> set ys. x \<noteq> y)"
    by (simp add: ssqdm_zero_iff)
  with True show ?thesis
    by (simp add: pearson_def Let_def comp_def)
next
  case False
  then have "\<exists>x \<in> set ys. \<exists>y \<in> set ys. x \<noteq> y"
    by (simp add: ssqdm_zero_iff)
  moreover have "ys \<noteq> []"
    using False by (auto simp: ssqdm_def)
  moreover have "sqrt (ssqdm ys * ssqdm ys) = ssqdm ys"
    using ssqdm_nonneg[of ys] by simp
  ultimately show ?thesis
    using False by (simp add: pearson_def Let_def comp_def codev_same)
qed

lemma cauchy_schwarz_list:
  fixes f g :: "'a \<Rightarrow> real"
  shows "(sum_list (map (\<lambda>p. f p * g p) ps))\<^sup>2
       \<le> sum_list (map (\<lambda>p. (f p)\<^sup>2) ps) * sum_list (map (\<lambda>p. (g p)\<^sup>2) ps)"
proof -
  define A where "A = sum_list (map (\<lambda>p. (f p)\<^sup>2) ps)"
  define B where "B = sum_list (map (\<lambda>p. (g p)\<^sup>2) ps)"
  define C where "C = sum_list (map (\<lambda>p. f p * g p) ps)"
  have quad: "sum_list (map (\<lambda>p. (t * f p + g p)\<^sup>2) ps) = t\<^sup>2 * A + 2 * t * C + B" for t
    unfolding A_def B_def C_def
    by (induction ps) (simp_all add: power2_eq_square algebra_simps)
  have nonneg: "0 \<le> t\<^sup>2 * A + 2 * t * C + B" for t
    unfolding quad[symmetric] by (rule sum_list_nonneg) auto
  have A0: "0 \<le> A"
    unfolding A_def by (rule sum_list_nonneg) auto
  show ?thesis
  proof (cases "A = 0")
    case True
    have "\<And>v. v \<in> set (map (\<lambda>p. (f p)\<^sup>2) ps) \<Longrightarrow> 0 \<le> v"
      by auto
    then have "\<forall>v \<in> set (map (\<lambda>p. (f p)\<^sup>2) ps). v = 0"
      using True unfolding A_def by (simp only: sum_list_nonneg_eq_0_iff)
    then have "\<forall>p \<in> set ps. f p = 0"
      by simp
    then have "C = 0"
      unfolding C_def by (induction ps) auto
    with True show ?thesis
      by (simp add: A_def[symmetric] B_def[symmetric] C_def[symmetric])
  next
    case False
    with A0 have Apos: "0 < A" by simp
    have "0 \<le> (- C / A)\<^sup>2 * A + 2 * (- C / A) * C + B"
      by (rule nonneg)
    also have "(- C / A)\<^sup>2 * A + 2 * (- C / A) * C + B = B - C\<^sup>2 / A"
      using Apos by (simp add: power2_eq_square field_simps)
    finally have "C\<^sup>2 / A \<le> B"
      by simp
    then have "C\<^sup>2 \<le> B * A"
      using Apos by (simp add: pos_divide_le_eq)
    then show ?thesis
      by (simp add: A_def B_def C_def mult.commute)
  qed
qed

lemma codev_bound: "\<bar>codev ps\<bar> \<le> sqrt (ssqdm (map fst ps) * ssqdm (map snd ps))"
proof -
  define mx where "mx = sum_list (map fst ps) / real (length ps)"
  define my where "my = sum_list (map snd ps) / real (length ps)"
  have c: "codev ps = sum_list (map (\<lambda>p. (fst p - mx) * (snd p - my)) ps)"
    by (simp add: codev_def Let_def mx_def my_def case_prod_unfold)
  have x: "ssqdm (map fst ps) = sum_list (map (\<lambda>p. (fst p - mx)\<^sup>2) ps)"
    by (simp add: ssqdm_def Let_def mx_def comp_def)
  have y: "ssqdm (map snd ps) = sum_list (map (\<lambda>p. (snd p - my)\<^sup>2) ps)"
    by (simp add: ssqdm_def Let_def my_def comp_def)
  have "(codev ps)\<^sup>2 \<le> ssqdm (map fst ps) * ssqdm (map snd ps)"
    unfolding c x y by (rule cauchy_schwarz_list)
  then have "sqrt ((codev ps)\<^sup>2) \<le> sqrt (ssqdm (map fst ps) * ssqdm (map snd ps))"
    by (rule real_sqrt_le_mono)
  then show ?thesis
    by simp
qed

lemma pearson_formula:
  assumes "ps \<noteq> []" and "ssqdm (map fst ps) \<noteq> 0" and "ssqdm (map snd ps) \<noteq> 0"
  shows "pearson ps = Some (codev ps / sqrt (ssqdm (map fst ps) * ssqdm (map snd ps)))"
    and "\<bar>codev ps / sqrt (ssqdm (map fst ps) * ssqdm (map snd ps))\<bar> \<le> 1"
proof -
  define d where "d = sqrt (ssqdm (map fst ps) * ssqdm (map snd ps))"
  have "0 < ssqdm (map fst ps) * ssqdm (map snd ps)"
    using assms(2,3) ssqdm_nonneg[of "map fst ps"] ssqdm_nonneg[of "map snd ps"]
    by (simp add: zero_less_mult_iff)
  then have dpos: "0 < d"
    by (simp add: d_def)
  have "\<bar>codev ps\<bar> \<le> d"
    unfolding d_def by (rule codev_bound)
  then have b: "\<bar>codev ps / d\<bar> \<le> 1"
    using dpos by simp
  then show "\<bar>codev ps / sqrt (ssqdm (map fst ps) * ssqdm (map snd ps))\<bar> \<le> 1"
    by (simp add: d_def)
  have "\<not> codev ps / d > 1" and "\<not> codev ps / d < -1"
    using b by linarith+
  then show "pearson ps = Some (codev ps / sqrt (ssqdm (map fst ps) * ssqdm (map snd ps)))"
    using assms(1) dpos by (simp add: pearson_def Let_def d_def[symmetric])
qed

lemma pearson_undefined:
  "ps = [] \<or> ssqdm (map fst ps) = 0 \<or> ssqdm (map snd ps) = 0 \<Longrightarrow> pearson ps = None"
  by (auto simp: pearson_def Let_def)

text \<open>
  C7, as the code has it. The correlation matrix has one row and one column per selected
  medication. A cell is Pearson's coefficient of the pairs of values at the rows where
  both columns are non-null: the sum of the products of the deviations from the two means
  over the root of the product of the two sums of squared deviations, a value between -1
  and 1; it is null when there is no such row or when one of the two columns is constant
  on these rows. The matrix is symmetric. A diagonal cell is 1 when the column has two
  different non-null values, which is when its variance is not zero, and null otherwise;
  so with exactly one medication selected the matrix is the single cell 1 or the single
  cell null.
\<close>

theorem corr_matrix:
  assumes "i < length meds" and "j < length meds"
    and "a = column (meds ! i) fdf" and "b = column (meds ! j) fdf"
  shows "length (corr fdf meds) = length meds
    \<and> length (corr fdf meds ! i) = length meds
    \<and> corr fdf meds ! i ! j = pearson (complete_pairs a b)
    \<and> complete_pairs a b =
        map (\<lambda>(x, y). (the x, the y)) (filter (\<lambda>(x, y). x \<noteq> None \<and> y \<noteq> None) (zip a b))
    \<and> corr fdf meds ! i ! j = corr fdf meds ! j ! i
    \<and> (ssqdm (dropna a) \<noteq> 0 \<longleftrightarrow> (\<exists>x \<in> set (dropna a). \<exists>y \<in> set (dropna a). x \<noteq> y))
    \<and> corr fdf meds ! i ! i = (if ssqdm (dropna a) \<noteq> 0 then Some 1 else None)
    \<and> (complete_pairs a b = [] \<or> ssqdm (map fst (complete_pairs a b)) = 0
          \<or> ssqdm (map snd (complete_pairs a b)) = 0
        \<longrightarrow> corr fdf meds ! i ! j = None)
    \<and> (complete_pairs a b \<noteq> [] \<and> ssqdm (map fst (complete_pairs a b)) \<noteq> 0
          \<and> ssqdm (map snd (complete_pairs a b)) \<noteq> 0
        \<longrightarrow> corr fdf meds ! i ! j =
              Some (codev (complete_pairs a b)
                    / sqrt (ssqdm (map fst (complete_pairs a b))
                            * ssqdm (map snd (complete_pairs a b))))
            \<and> \<bar>codev (complete_pairs a b)
                 / sqrt (ssqdm (map fst (complete_pairs a b))
                         * ssqdm (map snd (complete_pairs a b)))\<bar> \<le> 1)
    \<and> corr fdf [c] = [[if ssqdm (dropna (column c fdf)) \<noteq> 0 then Some 1 else None]]"
proof -
  have c1: "length (corr fdf meds) = length meds"
    by (simp add: corr_def)
  have c2: "length (corr fdf meds ! i) = length meds"
    using assms(1) by (simp add: corr_def)
  have cell: "corr fdf meds ! k ! l
      = pearson (complete_pairs (column (meds ! k) fdf) (column (meds ! l) fdf))"
    if "k < length meds" and "l < length meds" for k l
    using that by (simp add: corr_def)
  have c3: "corr fdf meds ! i ! j = pearson (complete_pairs a b)"
    using assms by (simp add: cell)
  have c4: "complete_pairs a b =
        map (\<lambda>(x, y). (the x, the y)) (filter (\<lambda>(x, y). x \<noteq> None \<and> y \<noteq> None) (zip a b))"
    by (rule complete_pairs_filter)
  have "corr fdf meds ! j ! i = pearson (complete_pairs b a)"
    using assms by (simp add: cell)
  then have c5: "corr fdf meds ! i ! j = corr fdf meds ! j ! i"
    by (simp add: c3 complete_pairs_swap[of b a] pearson_swap)
  have c6: "ssqdm (dropna a) \<noteq> 0 \<longleftrightarrow> (\<exists>x \<in> set (dropna a). \<exists>y \<in> set (dropna a). x \<noteq> y)"
    by (simp add: ssqdm_zero_iff)
  have diag: "pearson (complete_pairs s s) = (if ssqdm (dropna s) \<noteq> 0 then Some 1 else None)"
    for s
    by (simp add: complete_pairs_same pearson_same ssqdm_zero_iff)
  have c7: "corr fdf meds ! i ! i = (if ssqdm (dropna a) \<noteq> 0 then Some 1 else None)"
    using assms(1,3) by (simp add: cell diag)
  have c8: "complete_pairs a b = [] \<or> ssqdm (map fst (complete_pairs a b)) = 0
          \<or> ssqdm (map snd (complete_pairs a b)) = 0
        \<longrightarrow> corr fdf meds ! i ! j = None"
    using pearson_undefined[of "complete_pairs a b"] by (simp add: c3)
  have c9: "complete_pairs a b \<noteq> [] \<and> ssqdm (map fst (complete_pairs a b)) \<noteq> 0
          \<and> ssqdm (map snd (complete_pairs a b)) \<noteq> 0
        \<longrightarrow> corr fdf meds ! i ! j =
              Some (codev (complete_pairs a b)
                    / sqrt (ssqdm (map fst (complete_pairs a b))
                            * ssqdm (map snd (complete_pairs a b))))
            \<and> \<bar>codev (complete_pairs a b)
                 / sqrt (ssqdm (map fst (complete_pairs a b))
                         * ssqdm (map snd (complete_pairs a b)))\<bar> \<le> 1"
    using pearson_formula[of "complete_pairs a b"] by (simp add: c3)
  have c10: "corr fdf [c] = [[if ssqdm (dropna (column c fdf)) \<noteq> 0 then Some 1 else None]]"
    by (simp add: corr_def diag)
  from c1 c2 c3 c4 c5 c6 c7 c8 c9 c10 show ?thesis
    by blast
qed

lemma sample_2023:
  "filtered_df sample_df (2023, 2023) [Some 1, Some 2] (1, 31)
     = [sample_df ! 0, sample_df ! 1, sample_df ! 3, sample_df ! 4]"
  by (simp add: filtered_df_filter sample_df_rows spec_keeps_def in_range_def)

lemma sample_pairs:
  "complete_pairs (column ''DrugA'' [sample_df ! 0, sample_df ! 1, sample_df ! 3, sample_df ! 4])
      (column ''DrugB'' [sample_df ! 0, sample_df ! 1, sample_df ! 3, sample_df ! 4])
     = [(1, 2), (7, 4), (4, 6)]"
  "dropna (column ''DrugA'' [sample_df ! 0, sample_df ! 1, sample_df ! 3, sample_df ! 4])
     = [1, 3, 7, 4]"
  "dropna (column ''DrugB'' [sample_df ! 0, sample_df ! 1, sample_df ! 3, sample_df ! 4])
     = [2, 4, 6]"
  by (simp_all add: sample_df_rows column_def complete_pairs_def)

lemma sample_deviations:
  "ssqdm [1, 7, 4] = 18" "ssqdm [2, 4, 6] = 8" "codev [(1, 2), (7, 4), (4, 6)] = 6"
  "ssqdm [1, 3, 7, 4] = 75 / 4"
  by (simp_all add: ssqdm_def codev_def power2_eq_square)

lemma sqrt_144: "sqrt 144 = 12"
  using real_sqrt_abs[of 12] by simp

lemma sample_pearson:
  "pearson [(1, 2), (7, 4), (4, 6)] = Some (1 / 2)"
  by (simp add: pearson_def sample_deviations sqrt_144)

theorem corr_matrix_witness:
  "corr (filtered_df sample_df (2023, 2023) [Some 1, Some 2] (1, 31)) [''DrugA'', ''DrugB''] ! 0 ! 1
     = Some (1 / 2)
   \<and> corr (filtered_df sample_df (2023, 2023) [Some 1, Some 2] (1, 31)) [''DrugA'', ''DrugB''] ! 1 ! 0
     = Some (1 / 2)
   \<and> corr (filtered_df sample_df (2023, 2023) [Some 1, Some 2] (1, 31)) [''DrugA'', ''DrugB''] ! 0 ! 0
     = Some 1
   \<and> corr (filtered_df sample_df (2023, 2023) [Some 1, Some 2] (1, 31)) [''DrugA'']
     = [[Some 1]]
   \<and> corr [sample_df ! 1] [''DrugA'', ''DrugB''] ! 0 ! 1 = None"
proof -
  let ?F = "[sample_df ! 0, sample_df ! 1, sample_df ! 3, sample_df ! 4]"
  let ?M = "[''DrugA'', ''DrugB'']"
  have l: "0 < length ?M" "1 < length ?M"
    by simp_all
  note t = corr_matrix[where meds = ?M and fdf = ?F and c = "''DrugA''", OF l refl refl]
  have n: "?M ! 0 = ''DrugA''" "?M ! 1 = ''DrugB''"
    by simp_all
  have c3: "corr ?F ?M ! 0 ! 1 = Some (1 / 2)"
    using t[THEN conjunct2, THEN conjunct2, THEN conjunct1]
    unfolding n sample_pairs sample_pearson .
  have c5: "corr ?F ?M ! 0 ! 1 = corr ?F ?M ! 1 ! 0"
    using t[THEN conjunct2, THEN conjunct2, THEN conjunct2, THEN conjunct2, THEN conjunct1] .
  have v: "ssqdm [1, 3, 7, 4] \<noteq> 0"
    by (simp add: sample_deviations)
  have c7: "corr ?F ?M ! 0 ! 0 = Some 1"
    using t[THEN conjunct2, THEN conjunct2, THEN conjunct2, THEN conjunct2, THEN conjunct2,
        THEN conjunct2, THEN conjunct1] v
    unfolding n sample_pairs by simp
  have c10: "corr ?F [''DrugA''] = [[Some 1]]"
    using t[THEN conjunct2, THEN conjunct2, THEN conjunct2, THEN conjunct2, THEN conjunct2,
        THEN conjunct2, THEN conjunct2, THEN conjunct2, THEN conjunct2] v
    unfolding sample_pairs by simp
  let ?G = "[sample_df ! 1]"
  note u = corr_matrix[where meds = ?M and fdf = ?G and c = "''DrugA''", OF l refl refl]
  have e: "complete_pairs (column ''DrugA'' ?G) (column ''DrugB'' ?G) = []"
    by (simp add: sample_df_rows column_def complete_pairs_def)
  have c8: "corr ?G ?M ! 0 ! 1 = None"
    using u[THEN conjunct2, THEN conjunct2, THEN conjunct2, THEN conjunct2, THEN conjunct2,
        THEN conjunct2, THEN conjunct2, THEN conjunct1]
    unfolding n e by simp
  from c3 c5 c7 c10 c8 show ?thesis
    unfolding sample_2023 by simp
qed

text \<open>
  The day range 16 to 16 leaves the one row of 16 January 2023: the subset is not empty,
  one medication is selected, and the single cell of the matrix is null, not 1.
\<close>

theorem corr_single_column_counterexample:
  "filtered_df sample_df (2023, 2023) [Some 1] (16, 16) = [sample_df ! 1]
   \<and> corr (filtered_df sample_df (2023, 2023) [Some 1] (16, 16)) [''DrugA''] = [[None]]
   \<and> corr (filtered_df sample_df (2023, 2023) [Some 1] (16, 16)) [''DrugA''] \<noteq> [[Some 1]]"
proof -
  have f: "filtered_df sample_df (2023, 2023) [Some 1] (16, 16) = [sample_df ! 1]"
    by (simp add: filtered_df_filter sample_df_rows spec_keeps_def in_range_def)
  have "corr [sample_df ! 1] [''DrugA''] = [[None]]"
    by (simp add: corr_def pearson_def complete_pairs_def column_def sample_df_rows ssqdm_def)
  with f show ?thesis
    by simp
qed

end
